theory Spec2Isabelle
  imports Complex_Main
begin

section \<open>The training script \<^verbatim>\<open>single_image_run.py\<close>\<close>

text \<open>
  The script is glue around the operating system, a dataset-download command and a
  deep-learning library. The embedding keeps the control flow of every function of the
  script (guards, raises, loops, the order of calls) and records what the script does to
  the outside world: the lines it prints, the files it touches and the library calls it
  makes. What the library computes (a forward pass, an optimiser step) is a parameter of
  the model, never a definition of it; the few facts about the library on which the
  control flow of the script depends (the last layer of a ResNet, the sizes that
  \<^verbatim>\<open>nn.Linear\<close> refuses) are stated where they are used.

  Python floats are idealised as \<^typ>\<open>real\<close>: the script only adds, divides and compares
  them. (Of the accuracies, the proofs below use only that they are linearly ordered and
  never negative, which is true of the floats as well.) Counts of samples are
  \<^typ>\<open>nat\<close>, command-line integers are \<^typ>\<open>int\<close>.
\<close>

subsection \<open>Exceptions and outcomes\<close>

datatype py_error =
    ValueError string
  | ZeroDivisionError
  | RuntimeError
  | TypeError
  | AttributeError
  | NotADirectoryError
  | FileNotFoundError
  | FileExistsError
  | IsADirectoryError
  | CalledProcessError int

text \<open>
  A call either returns a value or raises; both leave a state behind (the lines printed
  and the files written before the raise stay printed and written).
\<close>

datatype ('a, 's) outcome = Returned 'a 's | Raised py_error 's

fun raised :: "('a, 's) outcome \<Rightarrow> py_error option" where
  "raised (Returned a s) = None"
| "raised (Raised e s) = Some e"


fun final :: "('a, 's) outcome \<Rightarrow> 's" where
  "final (Returned a s) = s"
| "final (Raised e s) = s"

subsection \<open>The command line\<close>

text \<open>
  The values of the eight flags, as \<^verbatim>\<open>parse_args\<close> returns them (the field \<open>arg_model\<close>
  is \<^verbatim>\<open>args.model\<close>, and so on).
\<close>

record args =
  arg_kaggle_json :: string
  arg_kaggle_dataset :: string
  arg_output_dir :: string
  arg_batch_size :: int
  arg_num_workers :: int
  arg_num_epochs :: int
  arg_model :: string
  arg_num_classes :: int

subsection \<open>Standard output and the log of outside calls\<close>

text \<open>
  One constructor for each \<^verbatim>\<open>print\<close> of the script, holding the values that its
  f-string formats:
  \<^item> \<open>Data_already_exists d\<close>: \<^verbatim>\<open>Data already exists in {d}. Skipping download.\<close>
  \<^item> \<open>Downloading ds d\<close>: \<^verbatim>\<open>Downloading data from Kaggle: {ds} to {d}\<close>
  \<^item> \<open>Download_completed\<close>: \<^verbatim>\<open>Download completed.\<close>
  \<^item> \<open>Training_for n\<close>: \<^verbatim>\<open>Training the model for {n} epochs.\<close>
  \<^item> \<open>Epoch_metrics k n l a tl ta\<close>: \<^verbatim>\<open>Epoch [{k}/{n}], Train Loss: {l:.4f}, Train Accuracy: {a:.4f}, Test Loss: {tl:.4f}, Test Accuracy: {ta:.4f}\<close>
  \<^item> \<open>Model_saved k ta\<close>: \<^verbatim>\<open>Model saved at epoch {k} with accuracy {ta:.4f}\<close>
  \<^item> \<open>Training_completed\<close>: \<^verbatim>\<open>Training completed!\<close>
  \<^item> \<open>Loading_model name c\<close>: \<^verbatim>\<open>Loading model: {name} with {c} output classes.\<close>
  \<^item> \<open>Model_loaded\<close>: \<^verbatim>\<open>Model loaded.\<close>
  \<^item> \<open>Creating_dataloaders b w\<close>: \<^verbatim>\<open>Creating dataloaders with batch size {b} and {w} workers.\<close>
  \<^item> \<open>Data_loaders_created\<close>: \<^verbatim>\<open>Data loaders created.\<close>
  \<^item> \<open>Arguments a\<close>: \<^verbatim>\<open>Arguments: {args}\<close>
  \<^item> \<open>Device_set d\<close>: \<^verbatim>\<open>Device set to: {d}\<close>
\<close>

datatype message =
    Data_already_exists string
  | Downloading string string
  | Download_completed
  | Training_for int
  | Epoch_metrics nat int real real real real
  | Model_saved nat real
  | Training_completed
  | Loading_model string int
  | Model_loaded
  | Creating_dataloaders int int
  | Data_loaders_created
  | Arguments args
  | Device_set string

text \<open>
  The log holds, in program order, every print and every call that reaches outside the
  script: the operating-system calls of the download, and the library calls of the
  training loop. The calls made inside the epoch loop carry the loop index \<open>epoch\<close> at
  which they happen. \<open>'x\<close> is the type of a batch of images, \<open>'sd\<close> that of a state
  dictionary; labels are class indices.
\<close>

datatype ('x, 'sd) event =
    Print message
  | Call_makedirs string
  | Call_copy string string
  | Call_chmod string nat
  | Call_subprocess "string list"
  | Call_model_train nat
  | Call_model_eval nat
  | Call_optimizer_step nat 'x "nat list"
  | Call_forward_no_grad nat 'x "nat list"
  | Call_scheduler_step nat real
  | Call_torch_save nat 'sd string

subsection \<open>\<^verbatim>\<open>download_data_from_kaggle\<close>\<close>

text \<open>
  The operating system is a parameter: \<open>'fs\<close> is the state of the filesystem, and each
  field is one of the calls that the function makes, returning the new filesystem or the
  exception that the call raises. \<open>subprocess_run\<close> returns the exit status of the
  command; the script passes \<^verbatim>\<open>check=True\<close>, so a non-zero status raises.
\<close>

record 'fs os =
  os_path_exists :: "'fs \<Rightarrow> string \<Rightarrow> bool"
  os_listdir :: "'fs \<Rightarrow> string \<Rightarrow> py_error + string list"
  os_path_expanduser :: "string \<Rightarrow> string"
  os_makedirs :: "'fs \<Rightarrow> string \<Rightarrow> py_error + 'fs"
  shutil_copy :: "'fs \<Rightarrow> string \<Rightarrow> string \<Rightarrow> py_error + 'fs"
  os_chmod :: "'fs \<Rightarrow> string \<Rightarrow> nat \<Rightarrow> py_error + 'fs"
  subprocess_run :: "'fs \<Rightarrow> string list \<Rightarrow> py_error + int \<times> 'fs"

record ('fs, 'x, 'sd) world =
  fs :: 'fs
  log :: "('x, 'sd) event list"

text \<open>\<^verbatim>\<open>os.path.join\<close> of two components (POSIX).\<close>

definition os_path_join :: "string \<Rightarrow> string \<Rightarrow> string" where
  "os_path_join a b =
     (if b \<noteq> [] \<and> hd b = CHR ''/'' then b
      else if a = [] \<or> last a = CHR ''/'' then a @ b
      else a @ ''/'' @ b)"

text \<open>
  The guard \<^verbatim>\<open>os.path.exists(output_dir) and os.listdir(output_dir)\<close>: the listing is
  read only when the path exists, and a non-empty listing is true.
\<close>

definition data_present :: "'fs os \<Rightarrow> 'fs \<Rightarrow> string \<Rightarrow> py_error + bool" where
  "data_present os f output_dir =
     (if os_path_exists os f output_dir then
        (case os_listdir os f output_dir of
           Inl e \<Rightarrow> Inl e
         | Inr entries \<Rightarrow> Inr (entries \<noteq> []))
      else Inr False)"

text \<open>\<^verbatim>\<open>not kaggle_json_path\<close>: true of \<^verbatim>\<open>None\<close> and of the empty string.\<close>

fun falsy :: "string option \<Rightarrow> bool" where
  "falsy None = True"
| "falsy (Some p) = (p = [])"

text \<open>The string that a credential path holds (used once the path is known not to be missing).\<close>

fun path_of :: "string option \<Rightarrow> string" where
  "path_of None = []"
| "path_of (Some p) = p"

definition install_credentials_and_download ::
  "'fs os \<Rightarrow> string \<Rightarrow> string \<Rightarrow> string \<Rightarrow> ('fs, 'x, 'sd) world \<Rightarrow>
     (unit, ('fs, 'x, 'sd) world) outcome" where
  "install_credentials_and_download os kaggle_json_path kaggle_dataset output_dir w =
     (let kaggle_dir = os_path_expanduser os ''~/.kaggle'';
          w1 = w\<lparr>log := log w @ [Call_makedirs kaggle_dir]\<rparr>
      in case os_makedirs os (fs w1) kaggle_dir of
           Inl e \<Rightarrow> Raised e w1
         | Inr f2 \<Rightarrow>
      (let target = os_path_join kaggle_dir ''kaggle.json'';
           w2 = w1\<lparr>fs := f2, log := log w1 @ [Call_copy kaggle_json_path target]\<rparr>
       in case shutil_copy os (fs w2) kaggle_json_path target of
            Inl e \<Rightarrow> Raised e w2
          | Inr f3 \<Rightarrow>
      (let w3 = w2\<lparr>fs := f3, log := log w2 @ [Call_chmod target 384]\<rparr>
       in case os_chmod os (fs w3) target 384 of
            Inl e \<Rightarrow> Raised e w3
          | Inr f4 \<Rightarrow>
      (let cmd = [''kaggle'', ''datasets'', ''download'', ''-d'', kaggle_dataset,
                  ''-p'', output_dir, ''--unzip''];
           w4 = w3\<lparr>fs := f4, log := log w3 @ [Call_subprocess cmd]\<rparr>
       in case subprocess_run os (fs w4) cmd of
            Inl e \<Rightarrow> Raised e w4
          | Inr (returncode, f5) \<Rightarrow>
              if returncode \<noteq> 0 then Raised (CalledProcessError returncode) (w4\<lparr>fs := f5\<rparr>)
              else Returned () (w4\<lparr>fs := f5, log := log w4 @ [Print Download_completed]\<rparr>)))))"

definition download_data_from_kaggle ::
  "'fs os \<Rightarrow> string option \<Rightarrow> string \<Rightarrow> string \<Rightarrow> ('fs, 'x, 'sd) world \<Rightarrow>
     (unit, ('fs, 'x, 'sd) world) outcome" where
  "download_data_from_kaggle os kaggle_json_path kaggle_dataset output_dir w =
     (case data_present os (fs w) output_dir of
        Inl e \<Rightarrow> Raised e w
      | Inr True \<Rightarrow> Returned () (w\<lparr>log := log w @ [Print (Data_already_exists output_dir)]\<rparr>)
      | Inr False \<Rightarrow>
          (let w0 = w\<lparr>log := log w @ [Print (Downloading kaggle_dataset output_dir)]\<rparr>
           in if falsy kaggle_json_path then
                Raised (ValueError ''The path to kaggle.json must be provided.'') w0
              else install_credentials_and_download os (path_of kaggle_json_path)
                     kaggle_dataset output_dir w0))"

subsection \<open>\<^verbatim>\<open>get_model\<close>\<close>

text \<open>
  A network is described by what \<^verbatim>\<open>get_model\<close> decides about it: the architecture, the
  \<^verbatim>\<open>weights\<close> argument given to the torchvision constructor (\<open>None\<close> is random
  initialisation, \<open>Some w\<close> a named set of pretrained weights), whether its parameters
  are trainable, and its final layer \<^verbatim>\<open>fc\<close>.
\<close>

datatype layer = Linear int int | Sequential "layer list"

datatype arch = ResNet18 | ResNet50

record network =
  arch :: arch
  weights :: "string option"
  requires_grad :: bool
  fc :: layer

text \<open>
  The library boundary: torchvision's \<^verbatim>\<open>models.resnet18\<close> and \<^verbatim>\<open>models.resnet50\<close>
  build a network whose parameters are trainable and whose last layer is a linear layer
  over 512 (respectively 2048) features and 1000 ImageNet classes.
\<close>

definition models_resnet18 :: "string option \<Rightarrow> network" where
  "models_resnet18 w = \<lparr>arch = ResNet18, weights = w, requires_grad = True, fc = Linear 512 1000\<rparr>"

definition models_resnet50 :: "string option \<Rightarrow> network" where
  "models_resnet50 w = \<lparr>arch = ResNet50, weights = w, requires_grad = True, fc = Linear 2048 1000\<rparr>"

text \<open>The attribute \<^verbatim>\<open>in_features\<close> exists on a linear layer only.\<close>

fun in_features :: "layer \<Rightarrow> py_error + int" where
  "in_features (Linear i out) = Inr i"
| "in_features (Sequential ls) = Inl AttributeError"

text \<open>
  The library boundary: \<^verbatim>\<open>nn.Linear(in_features, out_features)\<close> allocates a weight of
  that shape. A size that does not fit a signed 64-bit integer is refused when the
  arguments are read (\<^verbatim>\<open>TypeError\<close>), a negative one when the weight is created
  (\<^verbatim>\<open>RuntimeError\<close>); a size of \<open>0\<close> is accepted. (A layer larger than the memory of the
  machine fails as well; that limit is not part of the model.)
\<close>

definition nn_Linear :: "int \<Rightarrow> int \<Rightarrow> py_error + layer" where
  "nn_Linear in_f out_f =
     (if in_f < - (2 ^ 63) \<or> 2 ^ 63 \<le> in_f \<or> out_f < - (2 ^ 63) \<or> 2 ^ 63 \<le> out_f
      then Inl TypeError
      else if in_f < 0 \<or> out_f < 0 then Inl RuntimeError
      else Inr (Linear in_f out_f))"

definition select_model :: "string \<Rightarrow> py_error + network" where
  "select_model model_name =
     (if model_name = ''resnet18'' then Inr (models_resnet18 None)
      else if model_name = ''resnet50'' then Inr (models_resnet50 None)
      else Inl (ValueError (''Unsupported model: '' @ model_name)))"

definition get_model ::
  "string \<Rightarrow> int \<Rightarrow> ('x, 'sd) event list \<Rightarrow> (network, ('x, 'sd) event list) outcome" where
  "get_model model_name num_classes out =
     (let out1 = out @ [Print (Loading_model model_name num_classes)]
      in case select_model model_name of
           Inl e \<Rightarrow> Raised e out1
         | Inr model0 \<Rightarrow>
             (let model = model0\<lparr>requires_grad := True\<rparr>
              in case in_features (fc model) of
                   Inl e \<Rightarrow> Raised e out1
                 | Inr num_ftrs \<Rightarrow>
                     (case nn_Linear num_ftrs num_classes of
                        Inl e \<Rightarrow> Raised e out1
                      | Inr new_fc \<Rightarrow>
                          Returned (model\<lparr>fc := Sequential [new_fc]\<rparr>)
                                   (out1 @ [Print Model_loaded]))))"


subsection \<open>\<^verbatim>\<open>train_and_test_model\<close>\<close>

text \<open>
  The deep-learning library is a parameter. \<open>'m\<close> is the state of the network
  (parameters, buffers, mode), \<open>'opt\<close> that of the optimiser, \<open>'sch\<close> that of the
  learning-rate scheduler, \<open>'o\<close> the type of the network's outputs on a batch.
  \<^item> \<open>model_train\<close>, \<open>model_eval\<close>: \<^verbatim>\<open>model.train()\<close>, \<^verbatim>\<open>model.eval()\<close>;
  \<^item> \<open>forward\<close>: \<^verbatim>\<open>model(images)\<close>;
  \<^item> \<open>criterion\<close>: \<^verbatim>\<open>criterion(outputs, labels).item()\<close>;
  \<^item> \<open>backward_step\<close>: \<^verbatim>\<open>optimizer.zero_grad()\<close>, \<^verbatim>\<open>loss.backward()\<close> and
    \<^verbatim>\<open>optimizer.step()\<close> on the batch, giving the new optimiser and network (the
    buffers that a forward pass in training mode updates are part of this step);
  \<^item> \<open>predict\<close>: the index component of \<^verbatim>\<open>torch.max(outputs, 1)\<close>;
  \<^item> \<open>scheduler_step\<close>: \<^verbatim>\<open>scheduler.step(test_loss)\<close>, which may change the optimiser's
    learning rate and never touches the network;
  \<^item> \<open>state_dict\<close>: \<^verbatim>\<open>model.state_dict()\<close>.
  Moving a batch to the device does not change its value and is left out.
\<close>

record ('m, 'opt, 'sch, 'x, 'o, 'sd) torch =
  model_train :: "'m \<Rightarrow> 'm"
  model_eval :: "'m \<Rightarrow> 'm"
  forward :: "'m \<Rightarrow> 'x \<Rightarrow> 'o"
  criterion :: "'o \<Rightarrow> nat list \<Rightarrow> real"
  backward_step :: "'opt \<Rightarrow> 'm \<Rightarrow> 'x \<Rightarrow> nat list \<Rightarrow> 'opt \<times> 'm"
  predict :: "'o \<Rightarrow> nat list"
  scheduler_step :: "'sch \<Rightarrow> 'opt \<Rightarrow> real \<Rightarrow> 'sch \<times> 'opt"
  state_dict :: "'m \<Rightarrow> 'sd"

text \<open>
  A batch is a pair of images and labels. A data loader is what its iterations yield:
  \<open>loader k\<close> is the list of batches of its iteration number \<open>k\<close>, counted from \<open>0\<close>.
  A loader built with \<^verbatim>\<open>shuffle=True\<close> yields its samples in another order at each
  iteration, so the lists differ. Every epoch iterates each loader once: epoch \<open>e\<close>
  reads \<open>train_loader e\<close> and \<open>test_loader e\<close>, and \<^verbatim>\<open>len(loader)\<close> is the number of
  batches of that iteration.
\<close>

type_synonym 'x batch = "'x \<times> nat list"

type_synonym 'x loader = "nat \<Rightarrow> 'x batch list"

text \<open>
  The state of a run: the three library objects, the local variable
  \<^verbatim>\<open>best_accuracy\<close>, the files written by \<^verbatim>\<open>torch.save\<close> (path to content) and the log.
\<close>

record ('m, 'opt, 'sch, 'x, 'sd) train_state =
  model :: 'm
  optimizer :: 'opt
  scheduler :: "'sch option"
  best_accuracy :: real
  disk :: "string \<rightharpoonup> 'sd"
  trace :: "('x, 'sd) event list"

text \<open>\<^verbatim>\<open>(predicted == labels).sum().item()\<close>\<close>

definition count_equal :: "nat list \<Rightarrow> nat list \<Rightarrow> nat" where
  "count_equal predicted labels = length (filter (\<lambda>(p, l). p = l) (zip predicted labels))"

text \<open>
  The accumulators of a pass are \<open>(loss, correct, total)\<close>:
  \<^verbatim>\<open>running_loss, correct, total\<close> in the training pass (\<open>total\<close> is written
  \<open>total_seen\<close>, the name being taken in HOL) and
  \<^verbatim>\<open>test_loss, test_correct, test_total\<close> in the test pass.
\<close>

type_synonym totals = "real \<times> nat \<times> nat"

definition train_batch ::
  "('m, 'opt, 'sch, 'x, 'o, 'sd) torch \<Rightarrow> nat \<Rightarrow> 'x batch \<Rightarrow>
     totals \<times> ('m, 'opt, 'sch, 'x, 'sd) train_state \<Rightarrow>
     totals \<times> ('m, 'opt, 'sch, 'x, 'sd) train_state" where
  "train_batch T epoch b acc =
     (case (b, acc) of ((images, labels), ((running_loss, correct, total_seen), st)) \<Rightarrow>
        (let outputs = forward T (model st) images;
             loss = criterion T outputs labels;
             (opt', m') = backward_step T (optimizer st) (model st) images labels;
             predicted = predict T outputs
         in ((running_loss + loss, correct + count_equal predicted labels,
              total_seen + length labels),
             st\<lparr>model := m', optimizer := opt',
                trace := trace st @ [Call_optimizer_step epoch images labels]\<rparr>)))"

definition test_batch ::
  "('m, 'opt, 'sch, 'x, 'o, 'sd) torch \<Rightarrow> nat \<Rightarrow> 'x batch \<Rightarrow>
     totals \<times> ('m, 'opt, 'sch, 'x, 'sd) train_state \<Rightarrow>
     totals \<times> ('m, 'opt, 'sch, 'x, 'sd) train_state" where
  "test_batch T epoch b acc =
     (case (b, acc) of ((images, labels), ((test_loss, test_correct, test_total), st)) \<Rightarrow>
        (let outputs = forward T (model st) images;
             loss = criterion T outputs labels;
             predicted = predict T outputs
         in ((test_loss + loss, test_correct + count_equal predicted labels,
              test_total + length labels),
             st\<lparr>trace := trace st @ [Call_forward_no_grad epoch images labels]\<rparr>)))"

text \<open>Lines 84 to 101: \<^verbatim>\<open>model.train()\<close> and the loop over the training loader.\<close>

definition train_pass ::
  "('m, 'opt, 'sch, 'x, 'o, 'sd) torch \<Rightarrow> nat \<Rightarrow> 'x batch list \<Rightarrow>
     ('m, 'opt, 'sch, 'x, 'sd) train_state \<Rightarrow>
     totals \<times> ('m, 'opt, 'sch, 'x, 'sd) train_state" where
  "train_pass T epoch train_loader st =
     fold (train_batch T epoch) train_loader
       ((0, 0, 0), st\<lparr>model := model_train T (model st),
                      trace := trace st @ [Call_model_train epoch]\<rparr>)"

text \<open>Lines 106 to 121: \<^verbatim>\<open>model.eval()\<close> and the loop over the test loader.\<close>

definition test_pass ::
  "('m, 'opt, 'sch, 'x, 'o, 'sd) torch \<Rightarrow> nat \<Rightarrow> 'x batch list \<Rightarrow>
     ('m, 'opt, 'sch, 'x, 'sd) train_state \<Rightarrow>
     totals \<times> ('m, 'opt, 'sch, 'x, 'sd) train_state" where
  "test_pass T epoch test_loader st =
     fold (test_batch T epoch) test_loader
       ((0, 0, 0), st\<lparr>model := model_eval T (model st),
                      trace := trace st @ [Call_model_eval epoch]\<rparr>)"

text \<open>Lines 129 and 130: \<^verbatim>\<open>if scheduler is not None: scheduler.step(test_loss)\<close>.\<close>

definition step_scheduler ::
  "('m, 'opt, 'sch, 'x, 'o, 'sd) torch \<Rightarrow> nat \<Rightarrow> real \<Rightarrow>
     ('m, 'opt, 'sch, 'x, 'sd) train_state \<Rightarrow> ('m, 'opt, 'sch, 'x, 'sd) train_state" where
  "step_scheduler T epoch test_loss st =
     (case scheduler st of
        None \<Rightarrow> st
      | Some sch \<Rightarrow>
          (let (sch', opt') = scheduler_step T sch (optimizer st) test_loss
           in st\<lparr>scheduler := Some sch', optimizer := opt',
                 trace := trace st @ [Call_scheduler_step epoch test_loss]\<rparr>))"

text \<open>Lines 132 to 136: save the best model.\<close>

definition save_if_best ::
  "('m, 'opt, 'sch, 'x, 'o, 'sd) torch \<Rightarrow> nat \<Rightarrow> real \<Rightarrow>
     ('m, 'opt, 'sch, 'x, 'sd) train_state \<Rightarrow> ('m, 'opt, 'sch, 'x, 'sd) train_state" where
  "save_if_best T epoch test_accuracy st =
     (if test_accuracy > best_accuracy st then
        st\<lparr>best_accuracy := test_accuracy,
           disk := (disk st)(''best_model.pth'' \<mapsto> state_dict T (model st)),
           trace := trace st @ [Call_torch_save epoch (state_dict T (model st)) ''best_model.pth'',
                                Print (Model_saved (epoch + 1) test_accuracy)]\<rparr>
      else st)"

text \<open>
  The body of the epoch loop. The four divisions raise on a zero divisor: a float by
  \<^verbatim>\<open>len(train_loader)\<close>, the integer \<^verbatim>\<open>correct\<close> by the integer \<^verbatim>\<open>total\<close>, and the same
  two for the test pass.
\<close>

definition epoch_body ::
  "('m, 'opt, 'sch, 'x, 'o, 'sd) torch \<Rightarrow> 'x batch list \<Rightarrow> 'x batch list \<Rightarrow> int \<Rightarrow> nat \<Rightarrow>
     ('m, 'opt, 'sch, 'x, 'sd) train_state \<Rightarrow>
     (unit, ('m, 'opt, 'sch, 'x, 'sd) train_state) outcome" where
  "epoch_body T train_loader test_loader num_epochs epoch st =
     (case train_pass T epoch train_loader st of ((running_loss, correct, total_seen), st1) \<Rightarrow>
      if length train_loader = 0 then Raised ZeroDivisionError st1
      else if total_seen = 0 then Raised ZeroDivisionError st1
      else
     (let epoch_loss = running_loss / real (length train_loader);
          epoch_acc = real correct / real total_seen
      in case test_pass T epoch test_loader st1 of ((test_loss, test_correct, test_total), st2) \<Rightarrow>
      if length test_loader = 0 then Raised ZeroDivisionError st2
      else if test_total = 0 then Raised ZeroDivisionError st2
      else
     (let test_loss = test_loss / real (length test_loader);
          test_accuracy = real test_correct / real test_total;
          st3 = st2\<lparr>trace := trace st2 @
                   [Print (Epoch_metrics (epoch + 1) num_epochs epoch_loss epoch_acc
                             test_loss test_accuracy)]\<rparr>;
          st4 = step_scheduler T epoch test_loss st3
      in Returned () (save_if_best T epoch test_accuracy st4))))"

text \<open>
  \<^verbatim>\<open>for epoch in range(num_epochs)\<close>: an exception leaves the loop. The body is given
  the batches that the two loaders yield in this epoch.
\<close>

fun for_epochs ::
  "('m, 'opt, 'sch, 'x, 'o, 'sd) torch \<Rightarrow> 'x loader \<Rightarrow> 'x loader \<Rightarrow> int \<Rightarrow> nat list \<Rightarrow>
     ('m, 'opt, 'sch, 'x, 'sd) train_state \<Rightarrow>
     (unit, ('m, 'opt, 'sch, 'x, 'sd) train_state) outcome" where
  "for_epochs T train_loader test_loader num_epochs [] st = Returned () st"
| "for_epochs T train_loader test_loader num_epochs (epoch # rest) st =
     (case epoch_body T (train_loader epoch) (test_loader epoch) num_epochs epoch st of
        Raised e st' \<Rightarrow> Raised e st'
      | Returned u st' \<Rightarrow> for_epochs T train_loader test_loader num_epochs rest st')"

text \<open>
  \<^verbatim>\<open>range(num_epochs)\<close> is \<open>0, \<dots>, num_epochs - 1\<close>, and empty when \<open>num_epochs \<le> 0\<close>.
  The run starts from the files \<open>disk0\<close> already on disk and from an empty log.
\<close>

definition initial_state ::
  "'m \<Rightarrow> 'opt \<Rightarrow> 'sch option \<Rightarrow> int \<Rightarrow> (string \<rightharpoonup> 'sd) \<Rightarrow>
     ('m, 'opt, 'sch, 'x, 'sd) train_state" where
  "initial_state m opt sch num_epochs disk0 =
     \<lparr>model = m, optimizer = opt, scheduler = sch, best_accuracy = 0,
      disk = disk0, trace = [Print (Training_for num_epochs)]\<rparr>"

definition train_and_test_model ::
  "('m, 'opt, 'sch, 'x, 'o, 'sd) torch \<Rightarrow> 'm \<Rightarrow> 'x loader \<Rightarrow> 'x loader \<Rightarrow> 'opt \<Rightarrow>
     'sch option \<Rightarrow> int \<Rightarrow> (string \<rightharpoonup> 'sd) \<Rightarrow>
     (unit, ('m, 'opt, 'sch, 'x, 'sd) train_state) outcome" where
  "train_and_test_model T m train_loader test_loader opt sch num_epochs disk0 =
     (case for_epochs T train_loader test_loader num_epochs [0..<nat num_epochs]
             (initial_state m opt sch num_epochs disk0) of
        Raised e st \<Rightarrow> Raised e st
      | Returned u st \<Rightarrow> Returned () (st\<lparr>trace := trace st @ [Print Training_completed]\<rparr>))"

text \<open>
  The same run cut after its first \<open>k\<close> epochs: the state in which epoch \<open>k\<close> starts,
  or the exception that an earlier epoch raised.
\<close>

definition after_epochs ::
  "('m, 'opt, 'sch, 'x, 'o, 'sd) torch \<Rightarrow> 'm \<Rightarrow> 'x loader \<Rightarrow> 'x loader \<Rightarrow> 'opt \<Rightarrow>
     'sch option \<Rightarrow> int \<Rightarrow> (string \<rightharpoonup> 'sd) \<Rightarrow> nat \<Rightarrow>
     (unit, ('m, 'opt, 'sch, 'x, 'sd) train_state) outcome" where
  "after_epochs T m train_loader test_loader opt sch num_epochs disk0 k =
     for_epochs T train_loader test_loader num_epochs [0..<k]
       (initial_state m opt sch num_epochs disk0)"

subsection \<open>\<^verbatim>\<open>create_dataloaders\<close>\<close>



subsection \<open>The main block\<close>







subsection \<open>What an epoch computes\<close>

text \<open>
  The quantities that the specification names, stated apart from the loop. The
  gradient updates of a pass apply \<open>backward_step\<close> batch after batch, starting from an
  optimiser and a network.
\<close>

definition gradient_updates ::
  "('m, 'opt, 'sch, 'x, 'o, 'sd) torch \<Rightarrow> 'x batch list \<Rightarrow> 'opt \<times> 'm \<Rightarrow> 'opt \<times> 'm" where
  "gradient_updates T batches start =
     fold (\<lambda>(images, labels) (opt, m). backward_step T opt m images labels) batches start"

text \<open>
  For each batch of a pass: its loss, the number of its samples that are predicted
  right, and the number of its samples. In the training pass each batch meets the
  network as the updates of the batches before it have left it; in the test pass every
  batch meets the same network.
\<close>

fun training_results ::
  "('m, 'opt, 'sch, 'x, 'o, 'sd) torch \<Rightarrow> 'x batch list \<Rightarrow> 'opt \<times> 'm \<Rightarrow>
     (real \<times> nat \<times> nat) list" where
  "training_results T [] start = []"
| "training_results T ((images, labels) # batches) (opt, m) =
     (criterion T (forward T m images) labels,
      count_equal (predict T (forward T m images)) labels,
      length labels) #
     training_results T batches (backward_step T opt m images labels)"

definition test_results ::
  "('m, 'opt, 'sch, 'x, 'o, 'sd) torch \<Rightarrow> 'm \<Rightarrow> 'x batch list \<Rightarrow> (real \<times> nat \<times> nat) list" where
  "test_results T m batches =
     map (\<lambda>(images, labels).
            (criterion T (forward T m images) labels,
             count_equal (predict T (forward T m images)) labels,
             length labels)) batches"

text \<open>The loss of a pass is the mean of the batch losses; its accuracy is right over all.\<close>

definition mean_loss :: "(real \<times> nat \<times> nat) list \<Rightarrow> real" where
  "mean_loss results = sum_list (map fst results) / real (length results)"

definition accuracy :: "(real \<times> nat \<times> nat) list \<Rightarrow> real" where
  "accuracy results =
     real (sum_list (map (\<lambda>r. fst (snd r)) results)) /
     real (sum_list (map (\<lambda>r. snd (snd r)) results))"

text \<open>
  The metrics line of an epoch that starts in the state \<open>st\<close>: train loss and train
  accuracy of the training pass, then test loss and test accuracy of the network that
  the training pass has produced.
\<close>

definition epoch_report ::
  "('m, 'opt, 'sch, 'x, 'o, 'sd) torch \<Rightarrow> 'x batch list \<Rightarrow> 'x batch list \<Rightarrow> int \<Rightarrow> nat \<Rightarrow>
     ('m, 'opt, 'sch, 'x, 'sd) train_state \<Rightarrow> message" where
  "epoch_report T train_batches test_batches num_epochs epoch st =
     (let start = (optimizer st, model_train T (model st));
          train = training_results T train_batches start;
          trained = snd (gradient_updates T train_batches start);
          test = test_results T (model_eval T trained) test_batches
      in Epoch_metrics (epoch + 1) num_epochs (mean_loss train) (accuracy train)
           (mean_loss test) (accuracy test))"

subsection \<open>Reading the log\<close>

text \<open>The number of samples that one iteration over a loader yields.\<close>

definition num_samples :: "'x batch list \<Rightarrow> nat" where
  "num_samples loader = sum_list (map (\<lambda>(images, labels). length labels) loader)"

text \<open>The calls of one pass over a loader at loop index \<open>epoch\<close>, in order.\<close>

definition training_calls :: "nat \<Rightarrow> 'x batch list \<Rightarrow> ('x, 'sd) event list" where
  "training_calls epoch loader =
     Call_model_train epoch #
     map (\<lambda>(images, labels). Call_optimizer_step epoch images labels) loader"

definition test_calls :: "nat \<Rightarrow> 'x batch list \<Rightarrow> ('x, 'sd) event list" where
  "test_calls epoch loader =
     Call_model_eval epoch #
     map (\<lambda>(images, labels). Call_forward_no_grad epoch images labels) loader"

fun is_pass_call :: "('x, 'sd) event \<Rightarrow> bool" where
  "is_pass_call (Call_model_train e) = True"
| "is_pass_call (Call_model_eval e) = True"
| "is_pass_call (Call_optimizer_step e x l) = True"
| "is_pass_call (Call_forward_no_grad e x l) = True"
| "is_pass_call ev = False"

text \<open>The test accuracies printed by the metrics lines, in order.\<close>

fun test_accuracies :: "('x, 'sd) event list \<Rightarrow> real list" where
  "test_accuracies [] = []"
| "test_accuracies (Print (Epoch_metrics k n l a t_loss t_acc) # tr) = t_acc # test_accuracies tr"
| "test_accuracies (ev # tr) = test_accuracies tr"

text \<open>The metrics lines \<^verbatim>\<open>Epoch [k/n], ...\<close> with the values that they print, in order.\<close>

fun metrics_lines :: "('x, 'sd) event list \<Rightarrow> message list" where
  "metrics_lines [] = []"
| "metrics_lines (Print (Epoch_metrics k n l a t_loss t_acc) # tr) =
     Epoch_metrics k n l a t_loss t_acc # metrics_lines tr"
| "metrics_lines (ev # tr) = metrics_lines tr"

text \<open>The checkpoint writes: loop index, content and path of every \<^verbatim>\<open>torch.save\<close>.\<close>

fun checkpoints :: "('x, 'sd) event list \<Rightarrow> (nat \<times> 'sd \<times> string) list" where
  "checkpoints [] = []"
| "checkpoints (Call_torch_save e sd p # tr) = (e, sd, p) # checkpoints tr"
| "checkpoints (ev # tr) = checkpoints tr"

text \<open>
  The calls that change files: those of the download, and \<^verbatim>\<open>torch.save\<close>.
\<close>

fun writes_files :: "('x, 'sd) event \<Rightarrow> bool" where
  "writes_files (Call_makedirs p) = True"
| "writes_files (Call_copy src dst) = True"
| "writes_files (Call_chmod p mode) = True"
| "writes_files (Call_subprocess cmd) = True"
| "writes_files (Call_torch_save e sd p) = True"
| "writes_files ev = False"

text \<open>The commands run in a subprocess, and the calls that install the credential file.\<close>

fun subprocess_calls :: "('x, 'sd) event list \<Rightarrow> string list list" where
  "subprocess_calls [] = []"
| "subprocess_calls (Call_subprocess cmd # tr) = cmd # subprocess_calls tr"
| "subprocess_calls (ev # tr) = subprocess_calls tr"

fun is_credential_call :: "('x, 'sd) event \<Rightarrow> bool" where
  "is_credential_call (Call_makedirs p) = True"
| "is_credential_call (Call_copy src dst) = True"
| "is_credential_call (Call_chmod p mode) = True"
| "is_credential_call ev = False"

text \<open>
  The best test accuracy before epoch \<open>e\<close>, as the specification words it: the maximum
  over the earlier epochs, and \<open>0\<close> when there is none.
\<close>

definition earlier_best :: "real list \<Rightarrow> nat \<Rightarrow> real" where
  "earlier_best accs e = (if e = 0 then 0 else Max (set (take e accs)))"

subsection \<open>The invariant of the epoch loop\<close>

text \<open>
  What holds of the run cut after \<open>k\<close> epochs, in terms of the test accuracies \<open>accs\<close>
  printed so far and the checkpoint writes \<open>cps\<close> logged so far.
\<close>

definition loop_invariant ::
  "('m, 'opt, 'sch, 'x, 'o, 'sd) torch \<Rightarrow> 'm \<Rightarrow> 'x loader \<Rightarrow> 'x loader \<Rightarrow> 'opt \<Rightarrow>
     'sch option \<Rightarrow> int \<Rightarrow> (string \<rightharpoonup> 'sd) \<Rightarrow> nat \<Rightarrow> bool" where
  "loop_invariant T m train_loader test_loader opt sch num_epochs disk0 k =
     (let r = after_epochs T m train_loader test_loader opt sch num_epochs disk0 k;
          accs = test_accuracies (trace (final r));
          cps = checkpoints (trace (final r))
      in length accs \<le> k \<and>
         (raised r = None \<longrightarrow> length accs = k) \<and>
         (\<forall>a \<in> set accs. 0 \<le> a) \<and>
         best_accuracy (final r) = Max (insert 0 (set accs)) \<and>
         map fst cps = filter (\<lambda>e. earlier_best accs e < accs ! e) [0..<length accs] \<and>
         (\<forall>c \<in> set cps. snd (snd c) = ''best_model.pth'' \<and>
            fst (snd c) = state_dict T (model (final
              (after_epochs T m train_loader test_loader opt sch num_epochs disk0 (Suc (fst c)))))) \<and>
         disk (final r) =
           (if cps = [] then disk0 else disk0(''best_model.pth'' \<mapsto> fst (snd (last cps)))) \<and>
         metrics_lines (trace (final r)) =
           map (\<lambda>e. epoch_report T (train_loader e) (test_loader e) num_epochs e
                  (final (after_epochs T m train_loader test_loader opt sch num_epochs disk0 e)))
             [0..<length accs] \<and>
         (\<forall>ev \<in> set (trace (final r)). writes_files ev \<longrightarrow>
            (\<exists>e sd. ev = Call_torch_save e sd ''best_model.pth'')) \<and>
         (raised r = None \<longrightarrow>
            filter is_pass_call (trace (final r)) =
              concat (map (\<lambda>e. training_calls e (train_loader e) @ test_calls e (test_loader e))
                [0..<k])))"

subsection \<open>A small library and operating system, for running the model\<close>

text \<open>
  A network whose state is the number of optimiser steps taken so far; it predicts, for
  the image \<open>i\<close>, the class \<open>(i + steps) mod 3\<close>, and the loss of a batch is the number
  of its samples that are predicted wrong.
\<close>

definition example_torch :: "(nat, unit, unit, nat list, nat list, nat) torch" where
  "example_torch =
     \<lparr>model_train = (\<lambda>m. m), model_eval = (\<lambda>m. m),
      forward = (\<lambda>m images. map (\<lambda>i. (i + m) mod 3) images),
      criterion = (\<lambda>outputs labels. real (length labels - count_equal outputs labels)),
      backward_step = (\<lambda>opt m images labels. (opt, Suc m)),
      predict = (\<lambda>outputs. outputs),
      scheduler_step = (\<lambda>sch opt loss. (sch, opt)),
      state_dict = (\<lambda>m. m)\<rparr>"

text \<open>
  A training loader whose one batch changes from one iteration to the next, and a test
  loader that yields the same two batches every time.
\<close>

definition example_train_loader :: "nat list loader" where
  "example_train_loader k = [([k mod 2], [0])]"

definition example_test_loader :: "nat list loader" where
  "example_test_loader k = [([0, 0], [1, 2]), ([1, 2], [0, 2])]"

text \<open>Test images of class 5, which the example network never predicts.\<close>

definition hopeless_test_loader :: "nat list loader" where
  "hopeless_test_loader k = [([0, 1], [5, 5])]"

text \<open>A loader over an empty dataset.\<close>

definition empty_loader :: "nat list loader" where
  "empty_loader k = []"

text \<open>
  A filesystem that is a list of directories with their entries; copying and changing a
  mode succeed and the download command exits with status 0.
\<close>

definition example_os :: "(string \<times> string list) list os" where
  "example_os =
     \<lparr>os_path_exists = (\<lambda>f p. map_of f p \<noteq> None),
      os_listdir = (\<lambda>f p. case map_of f p of None \<Rightarrow> Inl FileNotFoundError | Some es \<Rightarrow> Inr es),
      os_path_expanduser = (\<lambda>p. ''/home/user'' @ drop 1 p),
      os_makedirs = (\<lambda>f p. Inr (if map_of f p = None then (p, []) # f else f)),
      shutil_copy = (\<lambda>f src dst. Inr f),
      os_chmod = (\<lambda>f p mode. Inr f),
      subprocess_run = (\<lambda>f cmd. Inr (0, f))\<rparr>"

definition example_world :: "((string \<times> string list) list, unit, unit) world" where
  "example_world = \<lparr>fs = [(''data'', [''train'', ''test''])], log = []\<rparr>"






section \<open>The download, the loaders and the network\<close>

lemma subprocess_calls_append:
  "subprocess_calls (xs @ ys) = subprocess_calls xs @ subprocess_calls ys"
  by (induction xs rule: subprocess_calls.induct) simp_all

lemma download_when_present:
  assumes "os_path_exists os (fs w) output_dir"
    and "os_listdir os (fs w) output_dir = Inr entries" and "entries \<noteq> []"
  shows "download_data_from_kaggle os kaggle_json_path kaggle_dataset output_dir w =
           Returned () (w\<lparr>log := log w @ [Print (Data_already_exists output_dir)]\<rparr>)"
  using assms by (simp add: download_data_from_kaggle_def data_present_def)



lemma metrics_lines_append: "metrics_lines (xs @ ys) = metrics_lines xs @ metrics_lines ys"
  by (induction xs rule: metrics_lines.induct) simp_all




section \<open>The training loop: what a pass, an epoch and a run do\<close>

subsection \<open>Reading the log of a concatenation\<close>

lemma test_accuracies_append: "test_accuracies (xs @ ys) = test_accuracies xs @ test_accuracies ys"
  by (induction xs rule: test_accuracies.induct) simp_all

lemma checkpoints_append: "checkpoints (xs @ ys) = checkpoints xs @ checkpoints ys"
  by (induction xs rule: checkpoints.induct) simp_all

subsection \<open>The two passes\<close>

lemma fold_train_batch_trace:
  "trace (snd (fold (train_batch T e) bs a)) =
     trace (snd a) @ map (\<lambda>(images, labels). Call_optimizer_step e images labels) bs"
  by (induction bs arbitrary: a) (auto simp: train_batch_def Let_def split: prod.splits)

lemma fold_train_batch_frame:
  "disk (snd (fold (train_batch T e) bs a)) = disk (snd a) \<and>
   best_accuracy (snd (fold (train_batch T e) bs a)) = best_accuracy (snd a) \<and>
   scheduler (snd (fold (train_batch T e) bs a)) = scheduler (snd a)"
  by (induction bs arbitrary: a) (auto simp: train_batch_def Let_def split: prod.splits)

lemma fold_train_batch_total:
  "snd (snd (fst (fold (train_batch T e) bs a))) = snd (snd (fst a)) + num_samples bs"
  by (induction bs arbitrary: a) (auto simp: train_batch_def Let_def num_samples_def split: prod.splits)

lemma fold_test_batch_trace:
  "trace (snd (fold (test_batch T e) bs a)) =
     trace (snd a) @ map (\<lambda>(images, labels). Call_forward_no_grad e images labels) bs"
  by (induction bs arbitrary: a) (auto simp: test_batch_def Let_def split: prod.splits)

lemma fold_test_batch_frame:
  "disk (snd (fold (test_batch T e) bs a)) = disk (snd a) \<and>
   best_accuracy (snd (fold (test_batch T e) bs a)) = best_accuracy (snd a) \<and>
   scheduler (snd (fold (test_batch T e) bs a)) = scheduler (snd a) \<and>
   model (snd (fold (test_batch T e) bs a)) = model (snd a) \<and>
   optimizer (snd (fold (test_batch T e) bs a)) = optimizer (snd a)"
  by (induction bs arbitrary: a) (auto simp: test_batch_def Let_def split: prod.splits)

lemma fold_test_batch_total:
  "snd (snd (fst (fold (test_batch T e) bs a))) = snd (snd (fst a)) + num_samples bs"
  by (induction bs arbitrary: a) (auto simp: test_batch_def Let_def num_samples_def split: prod.splits)


lemma length_training_results: "length (training_results T bs start) = length bs"
  by (induction T bs start rule: training_results.induct) simp_all

lemma train_batch_step:
  assumes "backward_step T (optimizer st) (model st) images labels = (opt', m')"
  shows "train_batch T e (images, labels) ((rl, c, t), st) =
     ((rl + criterion T (forward T (model st) images) labels,
       c + count_equal (predict T (forward T (model st) images)) labels,
       t + length labels),
      st\<lparr>model := m', optimizer := opt',
         trace := trace st @ [Call_optimizer_step e images labels]\<rparr>)"
  using assms by (simp add: train_batch_def Let_def)

lemma test_batch_step:
  "test_batch T e (images, labels) ((rl, c, t), st) =
     ((rl + criterion T (forward T (model st) images) labels,
       c + count_equal (predict T (forward T (model st) images)) labels,
       t + length labels),
      st\<lparr>trace := trace st @ [Call_forward_no_grad e images labels]\<rparr>)"
  by (simp add: test_batch_def Let_def)

lemma fold_train_batch_state:
  "(optimizer (snd (fold (train_batch T e) bs a)), model (snd (fold (train_batch T e) bs a))) =
     gradient_updates T bs (optimizer (snd a), model (snd a))"
proof (induction bs arbitrary: a)
  case Nil
  show ?case by (simp add: gradient_updates_def)
next
  case (Cons b bs)
  obtain images labels where b: "b = (images, labels)" by (cases b)
  obtain acc st where a: "a = (acc, st)" by (cases a)
  obtain rl c t where acc: "acc = (rl, c, t)" by (cases acc)
  obtain opt' m' where bstep: "backward_step T (optimizer st) (model st) images labels = (opt', m')"
    by (cases "backward_step T (optimizer st) (model st) images labels")
  have IH: "(optimizer (snd (fold (train_batch T e) bs a')),
             model (snd (fold (train_batch T e) bs a'))) =
     fold (\<lambda>(images, labels) (opt, m). backward_step T opt m images labels) bs
       (optimizer (snd a'), model (snd a'))" for a'
    using Cons [of a'] by (simp add: gradient_updates_def)
  show ?case unfolding b a acc
    by (simp add: train_batch_step [OF bstep] IH bstep gradient_updates_def)
qed

lemma fold_train_batch_sums:
  "fst (fold (train_batch T e) bs a) =
     (fst (fst a) +
        sum_list (map fst (training_results T bs (optimizer (snd a), model (snd a)))),
      fst (snd (fst a)) +
        sum_list (map (\<lambda>r. fst (snd r))
          (training_results T bs (optimizer (snd a), model (snd a)))),
      snd (snd (fst a)) +
        sum_list (map (\<lambda>r. snd (snd r))
          (training_results T bs (optimizer (snd a), model (snd a)))))"
proof (induction bs arbitrary: a)
  case Nil
  show ?case by simp
next
  case (Cons b bs)
  obtain images labels where b: "b = (images, labels)" by (cases b)
  obtain acc st where a: "a = (acc, st)" by (cases a)
  obtain rl c t where acc: "acc = (rl, c, t)" by (cases acc)
  obtain opt' m' where bstep: "backward_step T (optimizer st) (model st) images labels = (opt', m')"
    by (cases "backward_step T (optimizer st) (model st) images labels")
  show ?case unfolding b a acc
    by (simp add: train_batch_step [OF bstep] Cons bstep)
qed

lemma fold_test_batch_sums:
  "fst (fold (test_batch T e) bs a) =
     (fst (fst a) + sum_list (map fst (test_results T (model (snd a)) bs)),
      fst (snd (fst a)) + sum_list (map (\<lambda>r. fst (snd r)) (test_results T (model (snd a)) bs)),
      snd (snd (fst a)) + sum_list (map (\<lambda>r. snd (snd r)) (test_results T (model (snd a)) bs)))"
proof (induction bs arbitrary: a)
  case Nil
  show ?case by (simp add: test_results_def)
next
  case (Cons b bs)
  obtain images labels where b: "b = (images, labels)" by (cases b)
  obtain acc st where a: "a = (acc, st)" by (cases a)
  obtain rl c t where acc: "acc = (rl, c, t)" by (cases acc)
  have IH: "fst (fold (test_batch T e) bs a') =
     (fst (fst a') + sum_list (map fst (test_results T (model (snd a')) bs)),
      fst (snd (fst a')) + sum_list (map (\<lambda>r. fst (snd r)) (test_results T (model (snd a')) bs)),
      snd (snd (fst a')) + sum_list (map (\<lambda>r. snd (snd r)) (test_results T (model (snd a')) bs)))"
    for a'
    by (rule Cons)
  have unfold: "test_results T m ((images, labels) # bs) =
      (criterion T (forward T m images) labels,
       count_equal (predict T (forward T m images)) labels, length labels) #
      test_results T m bs" for m
    by (simp add: test_results_def)
  show ?case unfolding b a acc
    by (simp add: test_batch_step IH unfold)
qed

lemma train_pass_state:
  "(optimizer (snd (train_pass T e bs st)), model (snd (train_pass T e bs st))) =
     gradient_updates T bs (optimizer st, model_train T (model st))"
  by (simp add: train_pass_def fold_train_batch_state)

lemma train_pass_sums:
  "fst (train_pass T e bs st) =
     (sum_list (map fst (training_results T bs (optimizer st, model_train T (model st)))),
      sum_list (map (\<lambda>r. fst (snd r))
        (training_results T bs (optimizer st, model_train T (model st)))),
      sum_list (map (\<lambda>r. snd (snd r))
        (training_results T bs (optimizer st, model_train T (model st)))))"
  by (simp add: train_pass_def fold_train_batch_sums)

lemma test_pass_sums:
  "fst (test_pass T e bs st) =
     (sum_list (map fst (test_results T (model_eval T (model st)) bs)),
      sum_list (map (\<lambda>r. fst (snd r)) (test_results T (model_eval T (model st)) bs)),
      sum_list (map (\<lambda>r. snd (snd r)) (test_results T (model_eval T (model st)) bs)))"
  by (simp add: test_pass_def fold_test_batch_sums)

lemma train_pass_trace:
  "trace (snd (train_pass T e bs st)) = trace st @ training_calls e bs"
  by (simp add: train_pass_def training_calls_def fold_train_batch_trace)

lemma train_pass_frame:
  "disk (snd (train_pass T e bs st)) = disk st"
  "best_accuracy (snd (train_pass T e bs st)) = best_accuracy st"
  "scheduler (snd (train_pass T e bs st)) = scheduler st"
  by (simp_all add: train_pass_def fold_train_batch_frame)

lemma train_pass_total:
  "snd (snd (fst (train_pass T e bs st))) = num_samples bs"
  by (simp add: train_pass_def fold_train_batch_total)

lemma test_pass_trace:
  "trace (snd (test_pass T e bs st)) = trace st @ test_calls e bs"
  by (simp add: test_pass_def test_calls_def fold_test_batch_trace)

lemma test_pass_frame:
  "disk (snd (test_pass T e bs st)) = disk st"
  "best_accuracy (snd (test_pass T e bs st)) = best_accuracy st"
  "scheduler (snd (test_pass T e bs st)) = scheduler st"
  "model (snd (test_pass T e bs st)) = model_eval T (model st)"
  "optimizer (snd (test_pass T e bs st)) = optimizer st"
  by (simp_all add: test_pass_def fold_test_batch_frame)

lemma test_pass_total:
  "snd (snd (fst (test_pass T e bs st))) = num_samples bs"
  by (simp add: test_pass_def fold_test_batch_total)

lemma step_scheduler_trace:
  "trace (step_scheduler T e loss st) =
     trace st @ (case scheduler st of None \<Rightarrow> [] | Some sch \<Rightarrow> [Call_scheduler_step e loss])"
  by (simp add: step_scheduler_def Let_def split: option.splits prod.splits)

lemma step_scheduler_frame:
  "disk (step_scheduler T e loss st) = disk st"
  "best_accuracy (step_scheduler T e loss st) = best_accuracy st"
  "model (step_scheduler T e loss st) = model st"
  by (simp_all add: step_scheduler_def Let_def split: option.splits prod.splits)


subsection \<open>One epoch\<close>

lemma pass_calls_unobserved:
  "\<forall>ev \<in> set evs. is_pass_call ev \<Longrightarrow>
     test_accuracies evs = [] \<and> metrics_lines evs = [] \<and> checkpoints evs = []"
proof (induction evs)
  case Nil
  show ?case by simp
next
  case (Cons ev evs)
  then show ?case by (cases ev) simp_all
qed

lemma training_calls_pass: "\<forall>ev \<in> set (training_calls e loader). is_pass_call ev"
  by (auto simp: training_calls_def)

lemma test_calls_pass: "\<forall>ev \<in> set (test_calls e loader). is_pass_call ev"
  by (auto simp: test_calls_def)

lemma epoch_body_raises:
  assumes "train_loader = [] \<or> num_samples train_loader = 0 \<or> test_loader = [] \<or> num_samples test_loader = 0"
  shows "\<exists>st' evs. epoch_body T train_loader test_loader n e st = Raised ZeroDivisionError st' \<and>
           trace st' = trace st @ evs \<and> (\<forall>ev \<in> set evs. is_pass_call ev) \<and>
           disk st' = disk st \<and> best_accuracy st' = best_accuracy st"
proof -
  obtain rl c t st1 where tp: "train_pass T e train_loader st = ((rl, c, t), st1)"
    by (metis prod.exhaust)
  have t: "t = num_samples train_loader"
    using train_pass_total [of T e train_loader st] tp by simp
  have st1: "trace st1 = trace st @ training_calls e train_loader"
    "disk st1 = disk st" "best_accuracy st1 = best_accuracy st"
    using train_pass_trace [of T e train_loader st] train_pass_frame [of T e train_loader st] tp
    by simp_all
  obtain sl tc tt st2 where sp: "test_pass T e test_loader st1 = ((sl, tc, tt), st2)"
    by (metis prod.exhaust)
  have tt: "tt = num_samples test_loader"
    using test_pass_total [of T e test_loader st1] sp by simp
  have st2: "trace st2 = trace st @ (training_calls e train_loader @ test_calls e test_loader)"
    "disk st2 = disk st" "best_accuracy st2 = best_accuracy st"
    using test_pass_trace [of T e test_loader st1] test_pass_frame [of T e test_loader st1] sp st1
    by simp_all
  have p1: "\<forall>ev \<in> set (training_calls e train_loader). is_pass_call ev"
    by (rule training_calls_pass)
  have p2: "\<forall>ev \<in> set (training_calls e train_loader @ test_calls e test_loader). is_pass_call ev"
    using training_calls_pass [of e train_loader] test_calls_pass [of e test_loader] by auto
  show ?thesis
  proof (cases "train_loader = [] \<or> num_samples train_loader = 0")
    case True
    then have "epoch_body T train_loader test_loader n e st = Raised ZeroDivisionError st1"
      by (auto simp: epoch_body_def tp t)
    then show ?thesis using st1 p1 by blast
  next
    case False
    with assms have "test_loader = [] \<or> num_samples test_loader = 0" by auto
    with False have "epoch_body T train_loader test_loader n e st = Raised ZeroDivisionError st2"
      by (auto simp: epoch_body_def tp sp t tt Let_def)
    then show ?thesis using st2 p2 by blast
  qed
qed

lemma save_if_best_cases:
  "save_if_best T e ta st =
     (if best_accuracy st < ta then
        st\<lparr>best_accuracy := ta,
           disk := (disk st)(''best_model.pth'' \<mapsto> state_dict T (model st)),
           trace := trace st @ [Call_torch_save e (state_dict T (model st)) ''best_model.pth'',
                                Print (Model_saved (e + 1) ta)]\<rparr>
      else st)"
  by (simp add: save_if_best_def)

lemma epoch_body_returns:
  assumes "train_loader \<noteq> []" "num_samples train_loader \<noteq> 0"
    and "test_loader \<noteq> []" "num_samples test_loader \<noteq> 0"
  shows "\<exists>st' el ea tls ta.
    epoch_body T train_loader test_loader n e st = Returned () st' \<and> 0 \<le> ta \<and>
    trace st' = trace st @ training_calls e train_loader @ test_calls e test_loader @
      [Print (Epoch_metrics (e + 1) n el ea tls ta)] @
      (case scheduler st of None \<Rightarrow> [] | Some sch \<Rightarrow> [Call_scheduler_step e tls]) @
      (if best_accuracy st < ta
       then [Call_torch_save e (state_dict T (model st')) ''best_model.pth'',
             Print (Model_saved (e + 1) ta)]
       else []) \<and>
    best_accuracy st' = max (best_accuracy st) ta \<and>
    disk st' = (if best_accuracy st < ta
                then (disk st)(''best_model.pth'' \<mapsto> state_dict T (model st'))
                else disk st) \<and>
    Epoch_metrics (e + 1) n el ea tls ta = epoch_report T train_loader test_loader n e st \<and>
    model st' = model_eval T (snd (gradient_updates T train_loader
      (optimizer st, model_train T (model st))))"
proof -
  obtain rl c t st1 where tp: "train_pass T e train_loader st = ((rl, c, t), st1)"
    by (metis prod.exhaust)
  have t: "t = num_samples train_loader"
    using train_pass_total [of T e train_loader st] tp by simp
  have st1: "trace st1 = trace st @ training_calls e train_loader"
    "disk st1 = disk st" "best_accuracy st1 = best_accuracy st" "scheduler st1 = scheduler st"
    using train_pass_trace [of T e train_loader st] train_pass_frame [of T e train_loader st] tp
    by simp_all
  define start where "start = (optimizer st, model_train T (model st))"
  define train where "train = training_results T train_loader start"
  have train_totals: "rl = sum_list (map fst train)" "c = sum_list (map (\<lambda>r. fst (snd r)) train)"
    "t = sum_list (map (\<lambda>r. snd (snd r)) train)"
    using train_pass_sums [of T e train_loader st] tp by (simp_all add: train_def start_def)
  have m1: "model st1 = snd (gradient_updates T train_loader start)"
    using train_pass_state [of T e train_loader st] tp
    by (simp add: start_def prod_eq_iff)
  obtain sl tc tt st2 where sp: "test_pass T e test_loader st1 = ((sl, tc, tt), st2)"
    by (metis prod.exhaust)
  define test where "test = test_results T (model_eval T (model st1)) test_loader"
  have test_totals: "sl = sum_list (map fst test)" "tc = sum_list (map (\<lambda>r. fst (snd r)) test)"
    "tt = sum_list (map (\<lambda>r. snd (snd r)) test)"
    using test_pass_sums [of T e test_loader st1] sp by (simp_all add: test_def)
  have m2: "model st2 = model_eval T (model st1)"
    using test_pass_frame(4) [of T e test_loader st1] sp by simp
  have tt: "tt = num_samples test_loader"
    using test_pass_total [of T e test_loader st1] sp by simp
  have st2: "trace st2 = trace st1 @ test_calls e test_loader"
    "disk st2 = disk st1" "best_accuracy st2 = best_accuracy st1" "scheduler st2 = scheduler st1"
    using test_pass_trace [of T e test_loader st1] test_pass_frame [of T e test_loader st1] sp
    by simp_all
  define el where "el = rl / real (length train_loader)"
  define ea where "ea = real c / real t"
  define tls where "tls = sl / real (length test_loader)"
  define ta where "ta = real tc / real tt"
  define st3 where "st3 = st2\<lparr>trace := trace st2 @ [Print (Epoch_metrics (e + 1) n el ea tls ta)]\<rparr>"
  define st4 where "st4 = step_scheduler T e tls st3"
  define st5 where "st5 = save_if_best T e ta st4"
  have eb: "epoch_body T train_loader test_loader n e st = Returned () st5"
    using assms by (simp add: epoch_body_def tp sp t tt Let_def el_def ea_def tls_def ta_def
        st3_def st4_def st5_def)
  have ta0: "0 \<le> ta" by (simp add: ta_def)
  have st4: "trace st4 = trace st3 @ (case scheduler st of None \<Rightarrow> [] | Some sch \<Rightarrow> [Call_scheduler_step e tls])"
    "disk st4 = disk st" "best_accuracy st4 = best_accuracy st"
    using step_scheduler_trace [of T e tls st3] step_scheduler_frame [of T e tls st3]
    by (simp_all add: st4_def st3_def st2 st1)
  have m5: "model st5 = model st4"
    by (simp add: st5_def save_if_best_cases)
  have m4: "model st4 = model st2"
    using step_scheduler_frame(3) [of T e tls st3] by (simp add: st4_def st3_def)
  have len_train: "length train = length train_loader"
    by (simp add: train_def length_training_results)
  have len_test: "length test = length test_loader"
    by (simp add: test_def test_results_def)
  have vals: "el = mean_loss train" "ea = accuracy train" "tls = mean_loss test"
    "ta = accuracy test"
    by (simp_all add: mean_loss_def accuracy_def el_def ea_def tls_def ta_def train_totals
        test_totals len_train len_test)
  have "epoch_report T train_loader test_loader n e st =
      Epoch_metrics (e + 1) n (mean_loss train) (accuracy train) (mean_loss test) (accuracy test)"
    unfolding epoch_report_def Let_def train_def test_def m1 start_def by (rule refl)
  then have report:
    "Epoch_metrics (e + 1) n el ea tls ta = epoch_report T train_loader test_loader n e st"
    by (simp add: vals)
  have trained: "model st5 = model_eval T (snd (gradient_updates T train_loader
      (optimizer st, model_train T (model st))))"
    by (simp add: m5 m4 m2 m1 start_def)
  have trace5: "trace st5 = trace st4 @ (if best_accuracy st < ta
       then [Call_torch_save e (state_dict T (model st5)) ''best_model.pth'',
             Print (Model_saved (e + 1) ta)] else [])"
    unfolding m5 by (simp add: st5_def save_if_best_cases st4)
  have best5: "best_accuracy st5 = max (best_accuracy st) ta"
    by (simp add: st5_def save_if_best_cases st4)
  have disk5: "disk st5 = (if best_accuracy st < ta
                then (disk st)(''best_model.pth'' \<mapsto> state_dict T (model st5))
                else disk st)"
    unfolding m5 by (simp add: st5_def save_if_best_cases st4)
  have log5: "trace st5 = trace st @ training_calls e train_loader @ test_calls e test_loader @
      [Print (Epoch_metrics (e + 1) n el ea tls ta)] @
      (case scheduler st of None \<Rightarrow> [] | Some sch \<Rightarrow> [Call_scheduler_step e tls]) @
      (if best_accuracy st < ta
       then [Call_torch_save e (state_dict T (model st5)) ''best_model.pth'',
             Print (Model_saved (e + 1) ta)]
       else [])"
    unfolding trace5 st4(1) by (simp add: st3_def st2 st1)
  from eb ta0 log5 best5 disk5 report trained show ?thesis by blast
qed

subsection \<open>The loop over the epochs\<close>

lemma for_epochs_snoc:
  "for_epochs T trl tel n (es @ [e]) st =
     (case for_epochs T trl tel n es st of
        Raised err s \<Rightarrow> Raised err s
      | Returned u s \<Rightarrow> epoch_body T (trl e) (tel e) n e s)"
proof (induction es arbitrary: st)
  case Nil
  show ?case by (simp split: outcome.splits)
next
  case (Cons a es)
  then show ?case by (simp split: outcome.splits)
qed

lemma after_epochs_Suc:
  "after_epochs T m trl tel opt sch n d (Suc k) =
     (case after_epochs T m trl tel opt sch n d k of
        Raised err s \<Rightarrow> Raised err s
      | Returned u s \<Rightarrow> epoch_body T (trl k) (tel k) n k s)"
  by (simp add: after_epochs_def for_epochs_snoc)

subsection \<open>The invariant holds after every number of epochs\<close>

lemma earlier_best_snoc: "e \<le> length accs \<Longrightarrow> earlier_best (accs @ [a]) e = earlier_best accs e"
  by (simp add: earlier_best_def)

lemma earlier_best_length:
  assumes "\<forall>a \<in> set accs. (0::real) \<le> a"
  shows "earlier_best accs (length accs) = Max (insert 0 (set accs))"
proof (cases "accs = []")
  case True
  then show ?thesis by (simp add: earlier_best_def)
next
  case False
  then have "Max (insert 0 (set accs)) = max 0 (Max (set accs))"
    by simp
  moreover have "0 \<le> Max (set accs)"
    using False assms by (meson List.finite_set Max_in set_empty)
  ultimately show ?thesis using False by (simp add: earlier_best_def)
qed

lemma Max_snoc: "Max (insert 0 (set (accs @ [a::real]))) = max (Max (insert 0 (set accs))) a"
proof -
  have "insert 0 (set (accs @ [a])) = insert a (insert 0 (set accs))" by auto
  then show ?thesis by (simp add: max.commute)
qed

lemma filter_improving_snoc:
  "filter (\<lambda>e. earlier_best (accs @ [a]) e < (accs @ [a]) ! e) [0..<length accs] =
   filter (\<lambda>e. earlier_best accs e < accs ! e) [0..<length accs]"
  by (rule filter_cong) (simp_all add: earlier_best_snoc nth_append)

lemma calls_unobserved:
  "test_accuracies (training_calls e loader) = []"
  "metrics_lines (training_calls e loader) = []"
  "checkpoints (training_calls e loader) = []"
  "test_accuracies (test_calls e loader) = []"
  "metrics_lines (test_calls e loader) = []"
  "checkpoints (test_calls e loader) = []"
  by (simp_all add: pass_calls_unobserved training_calls_pass test_calls_pass)

lemma pass_call_no_write: "is_pass_call ev \<Longrightarrow> \<not> writes_files ev"
  by (cases ev) simp_all

lemma filter_pass_calls:
  "filter is_pass_call (training_calls e loader) = training_calls e loader"
  "filter is_pass_call (test_calls e loader) = test_calls e loader"
  by (simp_all add: training_calls_pass test_calls_pass)

lemma loop_invariant_0: "loop_invariant T m trl tel opt sch n d 0"
  by (simp add: loop_invariant_def after_epochs_def initial_state_def)

lemma loop_invariant_Suc:
  fixes T :: "('m, 'opt, 'sch, 'x, 'o, 'sd) torch"
  assumes IH: "loop_invariant T m trl tel opt sch n d k"
  shows "loop_invariant T m trl tel opt sch n d (Suc k)"
proof -
  define r where "r = after_epochs T m trl tel opt sch n d k"
  define accs where "accs = test_accuracies (trace (final r))"
  define cps where "cps = checkpoints (trace (final r))"
  define content where "content = (\<lambda>c :: nat \<times> 'sd \<times> string. snd (snd c) = ''best_model.pth'' \<and>
            fst (snd c) = state_dict T (model (final
              (after_epochs T m trl tel opt sch n d (Suc (fst c))))))"
  define report where "report = (\<lambda>e. epoch_report T (trl e) (tel e) n e
      (final (after_epochs T m trl tel opt sch n d e)))"
  have I: "length accs \<le> k" "raised r = None \<longrightarrow> length accs = k" "\<forall>a \<in> set accs. 0 \<le> a"
    "best_accuracy (final r) = Max (insert 0 (set accs))"
    "map fst cps = filter (\<lambda>e. earlier_best accs e < accs ! e) [0..<length accs]"
    "\<forall>c \<in> set cps. content c"
    "disk (final r) = (if cps = [] then d else d(''best_model.pth'' \<mapsto> fst (snd (last cps))))"
    "metrics_lines (trace (final r)) = map report [0..<length accs]"
    "\<forall>ev \<in> set (trace (final r)). writes_files ev \<longrightarrow>
       (\<exists>e sd. ev = Call_torch_save e sd ''best_model.pth'')"
    "raised r = None \<longrightarrow> filter is_pass_call (trace (final r)) =
       concat (map (\<lambda>e. training_calls e (trl e) @ test_calls e (tel e)) [0..<k])"
    using IH unfolding loop_invariant_def Let_def r_def [symmetric] accs_def [symmetric]
      cps_def [symmetric] content_def report_def by blast+
  define r' where "r' = after_epochs T m trl tel opt sch n d (Suc k)"
  define accs' where "accs' = test_accuracies (trace (final r'))"
  define cps' where "cps' = checkpoints (trace (final r'))"
  have goal: "loop_invariant T m trl tel opt sch n d (Suc k) \<longleftrightarrow>
    length accs' \<le> Suc k \<and> (raised r' = None \<longrightarrow> length accs' = Suc k) \<and> (\<forall>a \<in> set accs'. 0 \<le> a) \<and>
    best_accuracy (final r') = Max (insert 0 (set accs')) \<and>
    map fst cps' = filter (\<lambda>e. earlier_best accs' e < accs' ! e) [0..<length accs'] \<and>
    (\<forall>c \<in> set cps'. content c) \<and>
    disk (final r') = (if cps' = [] then d else d(''best_model.pth'' \<mapsto> fst (snd (last cps')))) \<and>
    metrics_lines (trace (final r')) = map report [0..<length accs'] \<and>
    (\<forall>ev \<in> set (trace (final r')). writes_files ev \<longrightarrow>
       (\<exists>e sd. ev = Call_torch_save e sd ''best_model.pth'')) \<and>
    (raised r' = None \<longrightarrow> filter is_pass_call (trace (final r')) =
       concat (map (\<lambda>e. training_calls e (trl e) @ test_calls e (tel e)) [0..<Suc k]))"
    unfolding loop_invariant_def Let_def r'_def [symmetric] accs'_def [symmetric]
      cps'_def [symmetric] content_def report_def by (rule refl)
  have step: "r' = (case r of Raised err s \<Rightarrow> Raised err s
                     | Returned u s \<Rightarrow> epoch_body T (trl k) (tel k) n k s)"
    by (simp add: r'_def r_def after_epochs_Suc)
  show ?thesis
  proof (cases r)
    case (Raised err s)
    then have "r' = r" using step by simp
    then have "accs' = accs" "cps' = cps" by (simp_all add: accs'_def accs_def cps'_def cps_def)
    then show ?thesis unfolding goal using I Raised \<open>r' = r\<close> by simp
  next
    case (Returned u s)
    then have len: "length accs = k" using I(2) by simp
    have r'_eq: "r' = epoch_body T (trl k) (tel k) n k s" using step Returned by simp
    have s: "final r = s" using Returned by simp
    show ?thesis
    proof (cases "trl k = [] \<or> num_samples (trl k) = 0 \<or> tel k = [] \<or> num_samples (tel k) = 0")
      case True
      from epoch_body_raises [OF True, of T n k s]
      obtain st' evs where e: "r' = Raised ZeroDivisionError st'" "trace st' = trace s @ evs"
        "\<forall>ev \<in> set evs. is_pass_call ev" "disk st' = disk s" "best_accuracy st' = best_accuracy s"
        unfolding r'_eq by blast
      have "accs' = accs" "cps' = cps"
        using e pass_calls_unobserved [OF e(3)] s
        by (simp_all add: accs'_def accs_def cps'_def cps_def test_accuracies_append checkpoints_append)
      moreover have "metrics_lines (trace (final r')) = metrics_lines (trace (final r))"
        using e pass_calls_unobserved [OF e(3)] s by (simp add: metrics_lines_append)
      moreover have "\<forall>ev \<in> set (trace (final r')). writes_files ev \<longrightarrow>
          (\<exists>e sd. ev = Call_torch_save e sd ''best_model.pth'')"
        using e(1,2,3) I(9) s by (auto dest: pass_call_no_write)
      ultimately show ?thesis unfolding goal using I(1-8) e(1,4,5) s by simp
    next
      case False
      then have pre: "trl k \<noteq> []" "num_samples (trl k) \<noteq> 0" "tel k \<noteq> []" "num_samples (tel k) \<noteq> 0"
        by simp_all
      from epoch_body_returns [OF pre, of T n k s]
      obtain st' el ea tls ta where e: "r' = Returned () st'" "0 \<le> ta"
        "trace st' = trace s @ training_calls k (trl k) @ test_calls k (tel k) @
          [Print (Epoch_metrics (k + 1) n el ea tls ta)] @
          (case scheduler s of None \<Rightarrow> [] | Some sch \<Rightarrow> [Call_scheduler_step k tls]) @
          (if best_accuracy s < ta
           then [Call_torch_save k (state_dict T (model st')) ''best_model.pth'',
                 Print (Model_saved (k + 1) ta)]
           else [])"
        "best_accuracy st' = max (best_accuracy s) ta"
        "disk st' = (if best_accuracy s < ta
                then (disk s)(''best_model.pth'' \<mapsto> state_dict T (model st'))
                else disk s)"
        "Epoch_metrics (k + 1) n el ea tls ta = epoch_report T (trl k) (tel k) n k s"
        unfolding r'_eq by blast
      have accs': "accs' = accs @ [ta]"
        using e(1,3) s
        by (simp add: accs'_def accs_def test_accuracies_append calls_unobserved
            split: option.splits)
      have cps': "cps' = cps @ (if best_accuracy s < ta
           then [(k, state_dict T (model st'), ''best_model.pth'')] else [])"
        using e(1,3) s
        by (simp add: cps'_def cps_def checkpoints_append calls_unobserved
            split: option.splits)
      have best: "best_accuracy s = Max (insert 0 (set accs))" using I(4) s by simp
      have "earlier_best accs' k = earlier_best accs k"
        unfolding accs' by (rule earlier_best_snoc) (simp add: len)
      also have "\<dots> = Max (insert 0 (set accs))"
        using earlier_best_length [OF I(3)] unfolding len .
      finally have eb: "earlier_best accs' k = best_accuracy s"
        using best by simp
      have c1: "length accs' \<le> Suc k" "raised r' = None \<longrightarrow> length accs' = Suc k"
        by (simp_all add: accs' len)
      have c2: "\<forall>a \<in> set accs'. 0 \<le> a" using I(3) e(2) by (simp add: accs')
      have c3: "best_accuracy (final r') = Max (insert 0 (set accs'))"
        using e(1,4) best by (simp add: accs' Max_snoc del: set_append)
      have "filter (\<lambda>e. earlier_best accs' e < accs' ! e) [0..<length accs'] =
            filter (\<lambda>e. earlier_best accs e < accs ! e) [0..<length accs] @
              (if best_accuracy s < ta then [k] else [])"
        using eb filter_improving_snoc [of accs ta]
        by (simp add: accs' len nth_append)
      then have c4: "map fst cps' = filter (\<lambda>e. earlier_best accs' e < accs' ! e) [0..<length accs']"
        using I(5) by (simp add: cps')
      have "content (k, state_dict T (model st'), ''best_model.pth'')"
        using e(1) by (simp add: content_def r'_def [symmetric])
      then have c5: "\<forall>c \<in> set cps'. content c"
        using I(6) by (auto simp: cps')
      have c6: "disk (final r') = (if cps' = [] then d else d(''best_model.pth'' \<mapsto> fst (snd (last cps'))))"
        using e(1,5) I(7) s by (simp add: cps')
      have "report k = epoch_report T (trl k) (tel k) n k s"
        using s by (simp add: report_def r_def)
      then have line: "Epoch_metrics (k + 1) n el ea tls ta = report k"
        using e(6) by simp
      have "metrics_lines (trace (final r')) =
          metrics_lines (trace (final r)) @ [Epoch_metrics (k + 1) n el ea tls ta]"
        using e(1,3) s
        by (simp add: metrics_lines_append calls_unobserved split: option.splits)
      then have c7: "metrics_lines (trace (final r')) = map report [0..<length accs']"
        unfolding line I(8) by (simp add: accs' len)
      have c8: "\<forall>ev \<in> set (trace (final r')). writes_files ev \<longrightarrow>
          (\<exists>e sd. ev = Call_torch_save e sd ''best_model.pth'')"
        using e(1,3) s I(9)
        by (auto simp: training_calls_def test_calls_def split: option.splits if_splits)
      have c9: "raised r' = None \<longrightarrow> filter is_pass_call (trace (final r')) =
          concat (map (\<lambda>e. training_calls e (trl e) @ test_calls e (tel e)) [0..<Suc k])"
        using e(1,3) s I(10) Returned
        by (simp add: filter_pass_calls split: option.splits)
      show ?thesis unfolding goal using c1 c2 c3 c4 c5 c6 c7 c8 c9 by blast
    qed
  qed
qed

lemma loop_invariant_holds: "loop_invariant T m trl tel opt sch n d k"
  by (induction k) (simp_all add: loop_invariant_0 loop_invariant_Suc)

subsection \<open>From the loop to \<^verbatim>\<open>train_and_test_model\<close>\<close>

lemma train_and_test_model_after:
  "train_and_test_model T m trl tel opt sch n d =
     (case after_epochs T m trl tel opt sch n d (nat n) of
        Raised e st \<Rightarrow> Raised e st
      | Returned u st \<Rightarrow> Returned () (st\<lparr>trace := trace st @ [Print Training_completed]\<rparr>))"
  by (simp add: train_and_test_model_def after_epochs_def)

lemma run_observed:
  "raised (train_and_test_model T m trl tel opt sch n d) =
     raised (after_epochs T m trl tel opt sch n d (nat n))"
  "test_accuracies (trace (final (train_and_test_model T m trl tel opt sch n d))) =
     test_accuracies (trace (final (after_epochs T m trl tel opt sch n d (nat n))))"
  "checkpoints (trace (final (train_and_test_model T m trl tel opt sch n d))) =
     checkpoints (trace (final (after_epochs T m trl tel opt sch n d (nat n))))"
  "metrics_lines (trace (final (train_and_test_model T m trl tel opt sch n d))) =
     metrics_lines (trace (final (after_epochs T m trl tel opt sch n d (nat n))))"
  "filter is_pass_call (trace (final (train_and_test_model T m trl tel opt sch n d))) =
     filter is_pass_call (trace (final (after_epochs T m trl tel opt sch n d (nat n))))"
  "disk (final (train_and_test_model T m trl tel opt sch n d)) =
     disk (final (after_epochs T m trl tel opt sch n d (nat n)))"
  "model (final (train_and_test_model T m trl tel opt sch n d)) =
     model (final (after_epochs T m trl tel opt sch n d (nat n)))"
  "set (trace (final (train_and_test_model T m trl tel opt sch n d))) \<subseteq>
     insert (Print Training_completed)
       (set (trace (final (after_epochs T m trl tel opt sch n d (nat n)))))"
  unfolding train_and_test_model_after
  by (cases "after_epochs T m trl tel opt sch n d (nat n)";
      auto simp: test_accuracies_append checkpoints_append metrics_lines_append)+


lemma after_epochs_returns:
  assumes "\<forall>e < k. trl e \<noteq> [] \<and> num_samples (trl e) \<noteq> 0 \<and>
                   tel e \<noteq> [] \<and> num_samples (tel e) \<noteq> 0"
  shows "raised (after_epochs T m trl tel opt sch n d k) = None"
  using assms
proof (induction k)
  case 0
  show ?case by (simp add: after_epochs_def)
next
  case (Suc k)
  then have "raised (after_epochs T m trl tel opt sch n d k) = None" by simp
  then obtain s where s: "after_epochs T m trl tel opt sch n d k = Returned () s"
    by (cases "after_epochs T m trl tel opt sch n d k") simp_all
  from Suc.prems have pre: "trl k \<noteq> []" "num_samples (trl k) \<noteq> 0"
    "tel k \<noteq> []" "num_samples (tel k) \<noteq> 0"
    by simp_all
  from epoch_body_returns [OF pre, of T n k s]
  obtain st' where "epoch_body T (trl k) (tel k) n k s = Returned () st'" by blast
  then show ?case by (simp add: after_epochs_Suc s)
qed

lemma after_epochs_raised_stays:
  assumes "raised (after_epochs T m trl tel opt sch n d k) = Some err"
  shows "raised (after_epochs T m trl tel opt sch n d (k + j)) = Some err"
proof (induction j)
  case 0
  show ?case using assms by simp
next
  case (Suc j)
  then obtain s where "after_epochs T m trl tel opt sch n d (k + j) = Raised err s"
    by (cases "after_epochs T m trl tel opt sch n d (k + j)") simp_all
  then show ?case by (simp add: after_epochs_Suc)
qed

lemma after_epochs_raises:
  assumes "e < k"
    and "trl e = [] \<or> num_samples (trl e) = 0 \<or> tel e = [] \<or> num_samples (tel e) = 0"
    and "\<forall>i < e. trl i \<noteq> [] \<and> num_samples (trl i) \<noteq> 0 \<and>
                   tel i \<noteq> [] \<and> num_samples (tel i) \<noteq> 0"
  shows "raised (after_epochs T m trl tel opt sch n d k) = Some ZeroDivisionError"
proof -
  have "raised (after_epochs T m trl tel opt sch n d e) = None"
    by (rule after_epochs_returns [OF assms(3)])
  then obtain s where s: "after_epochs T m trl tel opt sch n d e = Returned () s"
    by (cases "after_epochs T m trl tel opt sch n d e") simp_all
  from epoch_body_raises [OF assms(2), of T n e s]
  obtain st' where "epoch_body T (trl e) (tel e) n e s = Raised ZeroDivisionError st'" by blast
  then have "raised (after_epochs T m trl tel opt sch n d (Suc e)) = Some ZeroDivisionError"
    by (simp add: after_epochs_Suc s)
  from after_epochs_raised_stays [OF this, of "k - Suc e"] assms(1)
  show ?thesis by simp
qed

lemma after_epochs_raises_first:
  assumes "\<exists>e < k. trl e = [] \<or> num_samples (trl e) = 0 \<or> tel e = [] \<or> num_samples (tel e) = 0"
  shows "raised (after_epochs T m trl tel opt sch n d k) = Some ZeroDivisionError"
proof -
  define bad where "bad = (\<lambda>e. trl e = [] \<or> num_samples (trl e) = 0 \<or>
    tel e = [] \<or> num_samples (tel e) = 0)"
  from assms obtain e where e: "e < k" "bad e" unfolding bad_def by blast
  define e0 where "e0 = (LEAST i. bad i)"
  have bad0: "bad e0" unfolding e0_def using e(2) by (rule LeastI)
  have le: "e0 \<le> e" unfolding e0_def using e(2) by (rule Least_le)
  have good: "\<forall>i < e0. trl i \<noteq> [] \<and> num_samples (trl i) \<noteq> 0 \<and>
                   tel i \<noteq> [] \<and> num_samples (tel i) \<noteq> 0"
  proof (intro allI impI)
    fix i assume "i < e0"
    then have "\<not> bad i" unfolding e0_def by (rule not_less_Least)
    then show "trl i \<noteq> [] \<and> num_samples (trl i) \<noteq> 0 \<and> tel i \<noteq> [] \<and> num_samples (tel i) \<noteq> 0"
      by (simp add: bad_def)
  qed
  from le e(1) have lt: "e0 < k" by simp
  from bad0 have bad0': "trl e0 = [] \<or> num_samples (trl e0) = 0 \<or>
      tel e0 = [] \<or> num_samples (tel e0) = 0"
    by (simp add: bad_def)
  show ?thesis by (rule after_epochs_raises [OF lt bad0' good])
qed


lemmas loop_facts = loop_invariant_holds [unfolded loop_invariant_def Let_def]

lemmas loop_length = loop_facts [THEN conjunct1]
lemmas loop_nonneg = loop_facts [THEN conjunct2, THEN conjunct2, THEN conjunct1]
lemmas loop_best = loop_facts [THEN conjunct2, THEN conjunct2, THEN conjunct2, THEN conjunct1]
lemmas loop_saves = loop_facts [THEN conjunct2, THEN conjunct2, THEN conjunct2, THEN conjunct2, THEN conjunct1]
lemmas loop_disk = loop_facts [THEN conjunct2, THEN conjunct2, THEN conjunct2, THEN conjunct2, THEN conjunct2, THEN conjunct2, THEN conjunct1]
lemmas loop_writes = loop_facts [THEN conjunct2, THEN conjunct2, THEN conjunct2, THEN conjunct2, THEN conjunct2, THEN conjunct2, THEN conjunct2, THEN conjunct2, THEN conjunct1]


section \<open>The claims\<close>

subsection \<open>Two runs of the example\<close>

lemmas run_defs = train_and_test_model_def initial_state_def epoch_body_def train_pass_def
  test_pass_def train_batch_def test_batch_def step_scheduler_def save_if_best_def
  count_equal_def example_torch_def example_train_loader_def example_test_loader_def
  hopeless_test_loader_def empty_loader_def


lemma hopeless_run:
  "train_and_test_model example_torch 0 example_train_loader hopeless_test_loader () None 2
     Map.empty =
   Returned ()
    \<lparr>model = 2, optimizer = (), scheduler = None, best_accuracy = 0,
     disk = Map.empty,
     trace =
       [Print (Training_for 2), Call_model_train 0, Call_optimizer_step 0 [0] [0],
        Call_model_eval 0, Call_forward_no_grad 0 [0, 1] [5, 5],
        Print (Epoch_metrics 1 2 0 1 2 0), Call_model_train 1,
        Call_optimizer_step 1 [1] [0], Call_model_eval 1,
        Call_forward_no_grad 1 [0, 1] [5, 5], Print (Epoch_metrics 2 2 1 0 2 0),
        Print Training_completed]\<rparr>"
  by (simp add: run_defs upt_conv_Cons Let_def)

lemma example_loaders_nonempty:
  "example_train_loader e \<noteq> [] \<and> num_samples (example_train_loader e) \<noteq> 0 \<and>
   example_test_loader e \<noteq> [] \<and> num_samples (example_test_loader e) \<noteq> 0"
  by (simp add: example_train_loader_def example_test_loader_def num_samples_def)



subsection \<open>The network that is trained\<close>




subsection \<open>Misconfiguration, and data already present\<close>

text \<open>
  Claim C3, as stated, fails: with no credential path at all, the download function
  returns without raising when the output directory holds data.
\<close>

theorem download_missing_credential_counterexample:
  "raised (download_data_from_kaggle example_os None ''mainakml/vibeid-a-4-1'' ''data''
     example_world) = None"
  by (simp add: download_data_from_kaggle_def data_present_def example_os_def example_world_def)

text \<open>
  Claim C3, amended: when the output directory is absent or empty, a call of
  \<^verbatim>\<open>download_data_from_kaggle\<close> with a missing (empty or \<^verbatim>\<open>None\<close>) credential path
  raises \<^verbatim>\<open>ValueError\<close> after printing its progress line and before any other effect;
  and every call of \<^verbatim>\<open>get_model\<close> with a name other than the two supported ones raises
  \<^verbatim>\<open>ValueError\<close> after printing its progress line. Neither function catches it.
\<close>

theorem misconfiguration_raises:
  "((\<not> os_path_exists os (fs w) output_dir \<or> os_listdir os (fs w) output_dir = Inr []) \<and>
      falsy kaggle_json_path \<longrightarrow>
      download_data_from_kaggle os kaggle_json_path kaggle_dataset output_dir w =
        Raised (ValueError ''The path to kaggle.json must be provided.'')
          (w\<lparr>log := log w @ [Print (Downloading kaggle_dataset output_dir)]\<rparr>)) \<and>
   (model_name \<noteq> ''resnet18'' \<and> model_name \<noteq> ''resnet50'' \<longrightarrow>
      get_model model_name num_classes out =
        Raised (ValueError (''Unsupported model: '' @ model_name))
          (out @ [Print (Loading_model model_name num_classes)]))"
  by (auto simp: download_data_from_kaggle_def data_present_def get_model_def select_model_def)

theorem misconfiguration_raises_witness:
  "download_data_from_kaggle example_os (Some []) ''mainakml/vibeid-a-4-1'' ''elsewhere''
       example_world =
     Raised (ValueError ''The path to kaggle.json must be provided.'')
       (example_world\<lparr>log := log example_world @
          [Print (Downloading ''mainakml/vibeid-a-4-1'' ''elsewhere'')]\<rparr>) \<and>
   get_model ''vgg16'' 15 ([] :: (unit, unit) event list) =
     Raised (ValueError ''Unsupported model: vgg16'') [Print (Loading_model ''vgg16'' 15)]"
  using misconfiguration_raises [of example_os example_world "''elsewhere''" "Some []"
      "''mainakml/vibeid-a-4-1''" "''vgg16''" 15 "[] :: (unit, unit) event list"]
  by (simp add: example_os_def example_world_def)

text \<open>
  Claim C4: when the output directory exists and is not empty,
  \<^verbatim>\<open>download_data_from_kaggle\<close> prints that the data is there and returns: the download
  command is not run and the filesystem is as before.
\<close>

theorem download_skipped_when_present:
  assumes "os_path_exists os (fs w) output_dir"
    and "os_listdir os (fs w) output_dir = Inr entries" and "entries \<noteq> []"
  shows "download_data_from_kaggle os kaggle_json_path kaggle_dataset output_dir w =
           Returned () (w\<lparr>log := log w @ [Print (Data_already_exists output_dir)]\<rparr>) \<and>
         subprocess_calls (log (final
           (download_data_from_kaggle os kaggle_json_path kaggle_dataset output_dir w))) =
           subprocess_calls (log w) \<and>
         fs (final (download_data_from_kaggle os kaggle_json_path kaggle_dataset output_dir w)) =
           fs w"
  by (simp add: download_when_present [OF assms] subprocess_calls_append)

theorem download_skipped_when_present_witness:
  "download_data_from_kaggle example_os (Some ''kaggle.json'') ''mainakml/vibeid-a-4-1'' ''data''
       example_world =
     Returned () (example_world\<lparr>log := log example_world @ [Print (Data_already_exists ''data'')]\<rparr>) \<and>
   subprocess_calls (log (final
       (download_data_from_kaggle example_os (Some ''kaggle.json'') ''mainakml/vibeid-a-4-1''
          ''data'' example_world))) = subprocess_calls (log example_world) \<and>
   fs (final (download_data_from_kaggle example_os (Some ''kaggle.json'') ''mainakml/vibeid-a-4-1''
          ''data'' example_world)) = fs example_world"
proof -
  have 1: "os_path_exists example_os (fs example_world) ''data''"
    by (simp add: example_os_def example_world_def)
  have 2: "os_listdir example_os (fs example_world) ''data'' = Inr [''train'', ''test'']"
    by (simp add: example_os_def example_world_def)
  have 3: "[''train'', ''test''] \<noteq> []" by simp
  show ?thesis by (rule download_skipped_when_present [OF 1 2 3])
qed

text \<open>
  Claim C9: when the output directory exists and is not empty,
  \<^verbatim>\<open>download_data_from_kaggle\<close> returns before it looks at the credential path: it does
  not raise, whatever the path (missing included), and it makes none of the calls that
  create \<^verbatim>\<open>~/.kaggle\<close>, copy the credential file or change its mode; the filesystem
  is as before.
\<close>

theorem download_returns_before_credentials:
  assumes "os_path_exists os (fs w) output_dir"
    and "os_listdir os (fs w) output_dir = Inr entries" and "entries \<noteq> []"
  shows "raised (download_data_from_kaggle os kaggle_json_path kaggle_dataset output_dir w) = None \<and>
         filter is_credential_call (log (final
           (download_data_from_kaggle os kaggle_json_path kaggle_dataset output_dir w))) =
           filter is_credential_call (log w) \<and>
         fs (final (download_data_from_kaggle os kaggle_json_path kaggle_dataset output_dir w)) =
           fs w"
  by (simp add: download_when_present [OF assms])

theorem download_returns_before_credentials_witness:
  "raised (download_data_from_kaggle example_os None ''mainakml/vibeid-a-4-1'' ''data''
       example_world) = None \<and>
   filter is_credential_call (log (final
       (download_data_from_kaggle example_os None ''mainakml/vibeid-a-4-1''
          ''data'' example_world))) = filter is_credential_call (log example_world) \<and>
   fs (final (download_data_from_kaggle example_os None ''mainakml/vibeid-a-4-1''
          ''data'' example_world)) = fs example_world"
proof -
  have 1: "os_path_exists example_os (fs example_world) ''data''"
    by (simp add: example_os_def example_world_def)
  have 2: "os_listdir example_os (fs example_world) ''data'' = Inr [''train'', ''test'']"
    by (simp add: example_os_def example_world_def)
  have 3: "[''train'', ''test''] \<noteq> []" by simp
  show ?thesis by (rule download_returns_before_credentials [OF 1 2 3])
qed


subsection \<open>Epochs, passes and divisions\<close>


text \<open>
  Claim C8: the four divisions of an epoch are by \<^verbatim>\<open>len(train_loader)\<close>, \<^verbatim>\<open>total\<close>,
  \<^verbatim>\<open>len(test_loader)\<close> and \<^verbatim>\<open>test_total\<close>. When, in one of the epochs to run, a loader
  yields no batch or no sample, the run raises \<^verbatim>\<open>ZeroDivisionError\<close>. When in every
  epoch to run both loaders yield at least one batch and at least one sample, the run
  raises nothing. In particular, for loaders that yield the same batches in every epoch:
  when a loader has no batch or no sample and at least one epoch is run, the run raises
  \<^verbatim>\<open>ZeroDivisionError\<close>; when both loaders have at least one batch and at least one
  sample, the run raises nothing, and the four divisors are not zero (the total that a
  pass computes is the number of samples of its batches).
\<close>

theorem divisions_need_nonempty_loaders:
  "((\<exists>e < nat num_epochs. train_loader e = [] \<or> num_samples (train_loader e) = 0 \<or>
                            test_loader e = [] \<or> num_samples (test_loader e) = 0) \<longrightarrow>
      raised (train_and_test_model T m train_loader test_loader opt sch num_epochs disk0) =
        Some ZeroDivisionError) \<and>
   ((\<forall>e < nat num_epochs. train_loader e \<noteq> [] \<and> num_samples (train_loader e) \<noteq> 0 \<and>
                            test_loader e \<noteq> [] \<and> num_samples (test_loader e) \<noteq> 0) \<longrightarrow>
      raised (train_and_test_model T m train_loader test_loader opt sch num_epochs disk0) = None) \<and>
   (0 < num_epochs \<and> (train_batches = [] \<or> num_samples train_batches = 0 \<or>
                       test_batches = [] \<or> num_samples test_batches = 0) \<longrightarrow>
      raised (train_and_test_model T m (\<lambda>e. train_batches) (\<lambda>e. test_batches) opt sch
                num_epochs disk0) = Some ZeroDivisionError) \<and>
   (train_batches \<noteq> [] \<and> num_samples train_batches \<noteq> 0 \<and>
    test_batches \<noteq> [] \<and> num_samples test_batches \<noteq> 0 \<longrightarrow>
      raised (train_and_test_model T m (\<lambda>e. train_batches) (\<lambda>e. test_batches) opt sch
                num_epochs disk0) = None \<and>
      length train_batches \<noteq> 0 \<and>
      snd (snd (fst (train_pass T epoch train_batches st))) \<noteq> 0 \<and>
      length test_batches \<noteq> 0 \<and>
      snd (snd (fst (test_pass T epoch test_batches st'))) \<noteq> 0)"
proof (intro conjI impI)
  assume "\<exists>e < nat num_epochs. train_loader e = [] \<or> num_samples (train_loader e) = 0 \<or>
                            test_loader e = [] \<or> num_samples (test_loader e) = 0"
  then show "raised (train_and_test_model T m train_loader test_loader opt sch num_epochs disk0) =
        Some ZeroDivisionError"
    by (simp only: run_observed(1) after_epochs_raises_first)
next
  assume "\<forall>e < nat num_epochs. train_loader e \<noteq> [] \<and> num_samples (train_loader e) \<noteq> 0 \<and>
                            test_loader e \<noteq> [] \<and> num_samples (test_loader e) \<noteq> 0"
  then show "raised (train_and_test_model T m train_loader test_loader opt sch num_epochs disk0) = None"
    by (simp only: run_observed(1) after_epochs_returns)
next
  assume bad: "0 < num_epochs \<and> (train_batches = [] \<or> num_samples train_batches = 0 \<or>
                       test_batches = [] \<or> num_samples test_batches = 0)"
  then have "0 < nat num_epochs" by simp
  with bad have "\<exists>e < nat num_epochs. train_batches = [] \<or> num_samples train_batches = 0 \<or>
      test_batches = [] \<or> num_samples test_batches = 0"
    by blast
  then have "raised (after_epochs T m (\<lambda>e. train_batches) (\<lambda>e. test_batches) opt sch
      num_epochs disk0 (nat num_epochs)) = Some ZeroDivisionError"
    by (rule after_epochs_raises_first)
  then show "raised (train_and_test_model T m (\<lambda>e. train_batches) (\<lambda>e. test_batches) opt sch
                num_epochs disk0) = Some ZeroDivisionError"
    by (simp only: run_observed(1))
next
  assume pre: "train_batches \<noteq> [] \<and> num_samples train_batches \<noteq> 0 \<and>
    test_batches \<noteq> [] \<and> num_samples test_batches \<noteq> 0"
  then have "\<forall>e < nat num_epochs. train_batches \<noteq> [] \<and> num_samples train_batches \<noteq> 0 \<and>
      test_batches \<noteq> [] \<and> num_samples test_batches \<noteq> 0"
    by simp
  then have "raised (after_epochs T m (\<lambda>e. train_batches) (\<lambda>e. test_batches) opt sch
      num_epochs disk0 (nat num_epochs)) = None"
    by (rule after_epochs_returns)
  then show "raised (train_and_test_model T m (\<lambda>e. train_batches) (\<lambda>e. test_batches) opt sch
                num_epochs disk0) = None"
    by (simp only: run_observed(1))
  from pre show "length train_batches \<noteq> 0" by simp
  from pre show "snd (snd (fst (train_pass T epoch train_batches st))) \<noteq> 0"
    by (simp add: train_pass_total)
  from pre show "length test_batches \<noteq> 0" by simp
  from pre show "snd (snd (fst (test_pass T epoch test_batches st'))) \<noteq> 0"
    by (simp add: test_pass_total)
qed

theorem divisions_need_nonempty_loaders_witness:
  "raised (train_and_test_model example_torch 0 empty_loader example_test_loader () None 1
     Map.empty) = Some ZeroDivisionError \<and>
   raised (train_and_test_model example_torch 0 example_train_loader empty_loader () None 1
     Map.empty) = Some ZeroDivisionError \<and>
   raised (train_and_test_model example_torch 0 example_train_loader example_test_loader ()
     None 3 Map.empty) = None \<and>
   raised (train_and_test_model example_torch 0 (\<lambda>e. []) (\<lambda>e. [([0, 1], [5, 5])]) () None 1
     Map.empty) = Some ZeroDivisionError \<and>
   raised (train_and_test_model example_torch 0 (\<lambda>e. [([0], [0])]) (\<lambda>e. [([0, 1], [5, 5])])
     () None 2 Map.empty) = None \<and>
   snd (snd (fst (train_pass example_torch 0 [([0], [0])]
     (initial_state 0 () None 2 Map.empty)))) = 1 \<and>
   snd (snd (fst (test_pass example_torch 0 [([0, 1], [5, 5])]
     (initial_state 0 () None 2 Map.empty)))) = 2"
proof -
  have bad1: "\<exists>e < nat 1. empty_loader e = [] \<or> num_samples (empty_loader e) = 0 \<or>
      example_test_loader e = [] \<or> num_samples (example_test_loader e) = 0"
    by (simp add: empty_loader_def)
  have bad2: "\<exists>e < nat 1. example_train_loader e = [] \<or> num_samples (example_train_loader e) = 0 \<or>
      empty_loader e = [] \<or> num_samples (empty_loader e) = 0"
    by (simp add: empty_loader_def)
  have good: "\<forall>e < nat 3. example_train_loader e \<noteq> [] \<and>
      num_samples (example_train_loader e) \<noteq> 0 \<and>
      example_test_loader e \<noteq> [] \<and> num_samples (example_test_loader e) \<noteq> 0"
    by (simp add: example_loaders_nonempty)
  have bad3: "(0::int) < 1 \<and> (([] :: nat list batch list) = [] \<or>
      num_samples ([] :: nat list batch list) = 0 \<or>
      [([0, 1], [5, 5])] = ([] :: nat list batch list) \<or>
      num_samples [([0::nat, 1], [5::nat, 5])] = 0)"
    by simp
  have good4: "[([0], [0])] \<noteq> ([] :: nat list batch list) \<and>
      num_samples [([0::nat], [0::nat])] \<noteq> 0 \<and>
      [([0, 1], [5, 5])] \<noteq> ([] :: nat list batch list) \<and>
      num_samples [([0::nat, 1], [5::nat, 5])] \<noteq> 0"
    by (simp add: num_samples_def)
  note t1 = divisions_need_nonempty_loaders [where num_epochs = 1 and train_loader = empty_loader
      and test_loader = example_test_loader and T = example_torch and m = 0 and opt = "()"
      and sch = None, THEN conjunct1, THEN mp, OF bad1]
  note t2 = divisions_need_nonempty_loaders [where num_epochs = 1
      and train_loader = example_train_loader and test_loader = empty_loader
      and T = example_torch and m = 0 and opt = "()" and sch = None,
      THEN conjunct1, THEN mp, OF bad2]
  note t3 = divisions_need_nonempty_loaders [where num_epochs = 3
      and train_loader = example_train_loader and test_loader = example_test_loader
      and T = example_torch and m = 0 and opt = "()" and sch = None,
      THEN conjunct2, THEN conjunct1, THEN mp, OF good]
  note t4 = divisions_need_nonempty_loaders [where num_epochs = 1
      and train_batches = "[]" and test_batches = "[([0, 1], [5, 5])]"
      and T = example_torch and m = 0 and opt = "()" and sch = None,
      THEN conjunct2, THEN conjunct2, THEN conjunct1, THEN mp, OF bad3]
  note t5 = divisions_need_nonempty_loaders [where num_epochs = 2
      and train_batches = "[([0], [0])]" and test_batches = "[([0, 1], [5, 5])]"
      and T = example_torch and m = 0 and opt = "()" and sch = None,
      THEN conjunct2, THEN conjunct2, THEN conjunct2, THEN mp, OF good4]
  have d1: "snd (snd (fst (train_pass example_torch 0 [([0], [0])]
     (initial_state 0 () None 2 Map.empty)))) = 1"
    by (simp add: run_defs Let_def)
  have d2: "snd (snd (fst (test_pass example_torch 0 [([0, 1], [5, 5])]
     (initial_state 0 () None 2 Map.empty)))) = 2"
    by (simp add: run_defs Let_def)
  from t1 t2 t3 t4 t5 [THEN conjunct1] d1 d2 show ?thesis by (intro conjI)
qed








subsection \<open>Checkpoints\<close>

lemma earlier_best_nonneg:
  assumes "\<forall>a \<in> set accs. (0::real) \<le> a" and "e < length accs"
  shows "0 \<le> earlier_best accs e"
proof (cases "e = 0")
  case True
  then show ?thesis by (simp add: earlier_best_def)
next
  case False
  with assms(2) have ne: "take e accs \<noteq> []" by auto
  then have "Max (set (take e accs)) \<in> set (take e accs)" by simp
  then have "Max (set (take e accs)) \<in> set accs" by (rule in_set_takeD)
  with assms(1) False show ?thesis by (simp add: earlier_best_def)
qed





text \<open>
  Claim C6: the only call of a run that changes files is \<^verbatim>\<open>torch.save\<close> to the path
  \<^verbatim>\<open>best_model.pth\<close>; every other path holds after the run what it held before; and
  \<^verbatim>\<open>best_model.pth\<close> holds what the last checkpoint write put there (each write
  replaces the one before), or what it held before when there was no write.
\<close>

theorem only_best_model_path_written:
  "(\<forall>ev \<in> set (trace (final (train_and_test_model T m train_loader test_loader opt sch
        num_epochs disk0))).
      writes_files ev \<longrightarrow> (\<exists>epoch sd. ev = Call_torch_save epoch sd ''best_model.pth'')) \<and>
   (\<forall>p. p \<noteq> ''best_model.pth'' \<longrightarrow>
      disk (final (train_and_test_model T m train_loader test_loader opt sch num_epochs disk0)) p =
        disk0 p) \<and>
   disk (final (train_and_test_model T m train_loader test_loader opt sch num_epochs disk0)) =
     (if checkpoints (trace (final (train_and_test_model T m train_loader test_loader opt sch
            num_epochs disk0))) = []
      then disk0
      else disk0(''best_model.pth'' \<mapsto> fst (snd (last (checkpoints (trace (final
             (train_and_test_model T m train_loader test_loader opt sch num_epochs disk0))))))))"
proof -
  let ?r = "train_and_test_model T m train_loader test_loader opt sch num_epochs disk0"
  let ?a = "after_epochs T m train_loader test_loader opt sch num_epochs disk0 (nat num_epochs)"
  have w: "\<forall>ev \<in> set (trace (final ?a)).
      writes_files ev \<longrightarrow> (\<exists>epoch sd. ev = Call_torch_save epoch sd ''best_model.pth'')"
    by (rule loop_writes [of T m train_loader test_loader opt sch num_epochs disk0 "nat num_epochs"])
  have d: "disk (final ?a) = (if checkpoints (trace (final ?a)) = [] then disk0
      else disk0(''best_model.pth'' \<mapsto> fst (snd (last (checkpoints (trace (final ?a)))))))"
    by (rule loop_disk [of T m train_loader test_loader opt sch num_epochs disk0 "nat num_epochs"])
  have 1: "\<forall>ev \<in> set (trace (final ?r)).
      writes_files ev \<longrightarrow> (\<exists>epoch sd. ev = Call_torch_save epoch sd ''best_model.pth'')"
  proof
    fix ev assume "ev \<in> set (trace (final ?r))"
    then have "ev = Print Training_completed \<or> ev \<in> set (trace (final ?a))"
      using run_observed(8) [of T m train_loader test_loader opt sch num_epochs disk0] by blast
    then show "writes_files ev \<longrightarrow> (\<exists>epoch sd. ev = Call_torch_save epoch sd ''best_model.pth'')"
      using w by auto
  qed
  have 3: "disk (final ?r) = (if checkpoints (trace (final ?r)) = [] then disk0
      else disk0(''best_model.pth'' \<mapsto> fst (snd (last (checkpoints (trace (final ?r)))))))"
    using d by (simp add: run_observed)
  have 2: "\<forall>p. p \<noteq> ''best_model.pth'' \<longrightarrow> disk (final ?r) p = disk0 p"
    by (subst 3) simp
  show ?thesis using 1 2 3 by blast
qed

theorem only_best_model_path_written_witness:
  "Call_torch_save 1 2 ''best_model.pth'' \<in> set (trace (final (train_and_test_model example_torch 0
      example_train_loader example_test_loader () None 3 [''notes.txt'' \<mapsto> 7]))) \<and>
   disk (final (train_and_test_model example_torch 0 example_train_loader example_test_loader ()
      None 3 [''notes.txt'' \<mapsto> 7])) ''notes.txt'' = Some 7 \<and>
   disk (final (train_and_test_model example_torch 0 example_train_loader example_test_loader ()
      None 3 [''notes.txt'' \<mapsto> 7])) = [''notes.txt'' \<mapsto> 7, ''best_model.pth'' \<mapsto> 2]"
proof -
  let ?r = "train_and_test_model example_torch 0 example_train_loader example_test_loader ()
      None 3 [''notes.txt'' \<mapsto> 7]"
  note t = only_best_model_path_written [of example_torch 0 example_train_loader
      example_test_loader "()" None 3 "[''notes.txt'' \<mapsto> 7]"]
  have c: "checkpoints (trace (final ?r)) =
      [(0, 1, ''best_model.pth''), (1, 2, ''best_model.pth'')]"
    by (simp add: run_defs upt_conv_Cons Let_def numeral_2_eq_2)
  have "Call_torch_save 1 2 ''best_model.pth'' \<in> set (trace (final ?r))"
    by (simp add: run_defs upt_conv_Cons Let_def numeral_2_eq_2)
  moreover have "disk (final ?r) ''notes.txt'' = Some 7"
    using t by simp
  moreover have "disk (final ?r) = [''notes.txt'' \<mapsto> 7, ''best_model.pth'' \<mapsto> 2]"
    using t c by simp
  ultimately show ?thesis by blast
qed

text \<open>
  Claim C10: when every test accuracy printed by the run is \<open>0\<close>, no checkpoint is
  written and the files are as before; likewise when \<open>num_epochs\<close> is \<open>0\<close>.
\<close>

theorem no_checkpoint_without_improvement:
  "((\<forall>a \<in> set (test_accuracies (trace (final (train_and_test_model T m train_loader test_loader
          opt sch num_epochs disk0)))). a = 0) \<longrightarrow>
      checkpoints (trace (final (train_and_test_model T m train_loader test_loader opt sch
        num_epochs disk0))) = [] \<and>
      disk (final (train_and_test_model T m train_loader test_loader opt sch num_epochs disk0)) =
        disk0) \<and>
   (num_epochs = 0 \<longrightarrow>
      checkpoints (trace (final (train_and_test_model T m train_loader test_loader opt sch
        num_epochs disk0))) = [] \<and>
      disk (final (train_and_test_model T m train_loader test_loader opt sch num_epochs disk0)) =
        disk0)"
proof -
  let ?r = "train_and_test_model T m train_loader test_loader opt sch num_epochs disk0"
  let ?a = "after_epochs T m train_loader test_loader opt sch num_epochs disk0 (nat num_epochs)"
  let ?accs = "test_accuracies (trace (final ?a))"
  let ?cps = "checkpoints (trace (final ?a))"
  have nonneg: "\<forall>a \<in> set ?accs. 0 \<le> a"
    by (rule loop_nonneg [of T m train_loader test_loader opt sch num_epochs disk0 "nat num_epochs"])
  have saves: "map fst ?cps = filter (\<lambda>e. earlier_best ?accs e < ?accs ! e) [0..<length ?accs]"
    by (rule loop_saves [of T m train_loader test_loader opt sch num_epochs disk0 "nat num_epochs"])
  have d: "disk (final ?a) = (if ?cps = [] then disk0
      else disk0(''best_model.pth'' \<mapsto> fst (snd (last ?cps))))"
    by (rule loop_disk [of T m train_loader test_loader opt sch num_epochs disk0 "nat num_epochs"])
  have len: "length ?accs \<le> nat num_epochs"
    by (rule loop_length [of T m train_loader test_loader opt sch num_epochs disk0 "nat num_epochs"])
  have none: "?cps = []" if that': "\<forall>e < length ?accs. ?accs ! e \<le> 0"
  proof -
    have "\<not> earlier_best ?accs e < ?accs ! e" if e: "e < length ?accs" for e
    proof -
      have "0 \<le> earlier_best ?accs e" by (rule earlier_best_nonneg [OF nonneg e])
      moreover have "?accs ! e \<le> 0" using that' e by blast
      ultimately show ?thesis by linarith
    qed
    then have "filter (\<lambda>e. earlier_best ?accs e < ?accs ! e) [0..<length ?accs] = []"
      by (simp add: filter_empty_conv)
    with saves show ?thesis by simp
  qed
  have A: "?cps = [] \<and> disk (final ?a) = disk0" if "\<forall>a \<in> set ?accs. a = 0"
  proof -
    have "?accs ! e \<le> 0" if "e < length ?accs" for e
      using \<open>\<forall>a \<in> set ?accs. a = 0\<close> nth_mem [OF that] by fastforce
    then have "\<forall>e < length ?accs. ?accs ! e \<le> 0" by blast
    then have "?cps = []" by (rule none)
    then show ?thesis using d by simp
  qed
  have B: "?cps = [] \<and> disk (final ?a) = disk0" if "num_epochs = 0"
  proof -
    from that len have "?accs = []" by simp
    then have "?cps = []" using none by simp
    then show ?thesis using d by simp
  qed
  show ?thesis using A B by (simp add: run_observed)
qed

theorem no_checkpoint_without_improvement_witness:
  "checkpoints (trace (final (train_and_test_model example_torch 0 example_train_loader
      hopeless_test_loader () None 2 Map.empty))) = [] \<and>
   disk (final (train_and_test_model example_torch 0 example_train_loader
      hopeless_test_loader () None 2 Map.empty)) = Map.empty \<and>
   checkpoints (trace (final (train_and_test_model example_torch 0 example_train_loader
      example_test_loader () None 0 Map.empty))) = [] \<and>
   disk (final (train_and_test_model example_torch 0 example_train_loader
      example_test_loader () None 0 Map.empty)) = Map.empty"
proof -
  have z: "\<forall>a \<in> set (test_accuracies (trace (final (train_and_test_model example_torch 0
      example_train_loader hopeless_test_loader () None 2 Map.empty)))). a = 0"
    by (simp add: hopeless_run)
  show ?thesis
    using no_checkpoint_without_improvement [of example_torch 0 example_train_loader
        hopeless_test_loader "()" None 2 Map.empty] z
      no_checkpoint_without_improvement [of example_torch 0 example_train_loader
        example_test_loader "()" None 0 Map.empty]
    by simp
qed


end
